theory Spec2Isabelle
  imports Complex_Main "HOL-Library.AList"
begin

section \<open>Field Vision service: the data model\<close>

text \<open>
  The development follows \<^verbatim>\<open>backend/services/veo_service.py\<close>.  Exceptions are
  represented by their message (\<^verbatim>\<open>str(exc)\<close>), which is all the service ever reads of
  them.  Strings are byte strings in UTF-8, so a character outside ASCII is a run of bytes
  with the high bit set.  Python floats (timestamps, hectares, litres) are carried as
  reals; the service only stores them and, in the janitor, subtracts and compares two
  timestamps.  The \<^verbatim>\<open>print\<close> calls of the background job can raise and are part of its
  model; those of \<^verbatim>\<open>_get_client\<close> and of the image analysis are left out.
\<close>

type_synonym exn = string

record FieldAnalytics =
  land_area_ha :: real
  water_need_l_per_day :: real
  profit_usd_per_ha :: real
  risk_score :: int
  risk_label :: string
  sustainability_score :: int
  soil_type :: string
  dominant_vegetation :: string
  recommended_crop :: string
  veo_prompt :: string
  is_mock :: bool
  analytics_notes :: string

text \<open>
  \<^verbatim>\<open>VeoJob\<close>: the status is the string the source stores
  (\<^verbatim>\<open>generating | ready | error\<close>).  \<open>analytics_notes\<close> above is the
  field \<^verbatim>\<open>notes\<close> of \<^verbatim>\<open>FieldAnalytics\<close>.  The field \<open>job_notes\<close> is the attribute
  \<^verbatim>\<open>job.notes\<close> that the billing fallback attaches to the object; the dataclass does
  not declare it, so it is absent until then.
\<close>

record VeoJob =
  job_id :: string
  status :: string
  video_url :: "string option"
  video_path :: "string option"
  analytics :: "FieldAnalytics option"
  error :: "string option"
  created_at :: real
  job_notes :: "string option"

definition new_VeoJob :: "string \<Rightarrow> FieldAnalytics option \<Rightarrow> real \<Rightarrow> VeoJob" where
  "new_VeoJob jid a now =
     \<lparr>job_id = jid, status = ''generating'', video_url = None, video_path = None,
      analytics = a, error = None, created_at = now, job_notes = None\<rparr>"

definition MOCK_ANALYTICS :: FieldAnalytics where
  "MOCK_ANALYTICS =
     \<lparr>land_area_ha = 12.4,
      water_need_l_per_day = 3800,
      profit_usd_per_ha = 1240,
      risk_score = 28,
      risk_label = ''Low'',
      sustainability_score = 74,
      soil_type = ''Sandy Loam'',
      dominant_vegetation = ''Sparse Grass / Barren'',
      recommended_crop = ''Wheat / Sorghum'',
      veo_prompt =
        ''Cinematic aerial timelapse of a 12-hectare sandy-loam field in Yolo County, '' @
        ''California. Time begins in early spring with bare rows of dark soil. '' @
        ''Over the sequence wheat seedlings emerge, grow into tall golden stalks, '' @
        ''irrigation channels glisten in the sunlight, and the field transforms into '' @
        ''a lush, productive farmland. Drone shot slowly orbiting the field.'',
      is_mock = True,
      analytics_notes = ''Mock analytics '' @ [CHR 0xE2, CHR 0x80, CHR 0x94] @
              '' add GEMINI_API_KEY to .env for real analysis.''\<rparr>"

definition MOCK_VIDEO_URL :: string where
  "MOCK_VIDEO_URL = ''https://videos.pexels.com/video-files/852395/852395-hd_1280_720_25fps.mp4''"

text \<open>
  \<^verbatim>\<open>VIDEO_DIR\<close> is \<^verbatim>\<open>os.path.join(os.environ.get("TEMP", "/tmp"), "agribot_videos")\<close>,
  computed once from the value of \<^verbatim>\<open>TEMP\<close>, which is \<open>None\<close> when the variable is
  unset.  \<open>out_path\<close> is \<^verbatim>\<open>os.path.join(self.VIDEO_DIR, f"{job.job_id}.mp4")\<close>; the
  directory never ends in a slash, and a job id, a UUID, never starts with one.
\<close>

definition VIDEO_DIR :: "string option \<Rightarrow> string" where
  "VIDEO_DIR t =
     (case t of
        None \<Rightarrow> ''/tmp/agribot_videos''
      | Some d \<Rightarrow>
          (if d = [] then ''agribot_videos''
           else if last d = CHR ''/'' then d @ ''agribot_videos''
           else d @ ''/agribot_videos''))"

definition out_path :: "string option \<Rightarrow> string \<Rightarrow> string" where
  "out_path t jid = VIDEO_DIR t @ ''/'' @ jid @ ''.mp4''"

section \<open>The generation backend\<close>

text \<open>
  What a run of the background job meets outside the service is an oracle.  An operation
  handle shows \<^verbatim>\<open>done\<close> and \<^verbatim>\<open>response\<close>; the response, when there is one, is the
  list \<^verbatim>\<open>response.generated_videos\<close> (an absent list is the empty one, both are falsy).
  A video is an opaque handle.  Each call is answered with an exception or a value:
  \<open>generate_videos\<close> by model name, \<open>operations_get\<close> by the number of refreshes made
  before and the handle refreshed, \<open>files_download\<close> and \<open>video_save\<close> with \<open>Some\<close>
  exception or \<open>None\<close> for success.  \<open>prelude\<close> is the outcome of the imports and of
  building the image part at the top of \<^verbatim>\<open>_run_veo_sync\<close>.  \<open>stdout\<close> answers
  \<^verbatim>\<open>print(text)\<close>: \<open>None\<close> when the text is written, \<open>Some\<close> exception when the
  call raises, as it does on a text the stream cannot encode.  \<open>temp\<close> is the value of
  \<^verbatim>\<open>TEMP\<close> from which \<^verbatim>\<open>VIDEO_DIR\<close> was computed.
\<close>

record operation =
  op_done :: bool
  op_response :: "nat list option"

record backend =
  prelude :: "exn option"
  temp :: "string option"
  stdout :: "string \<Rightarrow> exn option"
  generate_videos :: "string \<Rightarrow> exn + operation"
  operations_get :: "nat \<Rightarrow> operation \<Rightarrow> exn + operation"
  files_download :: "nat \<Rightarrow> exn option"
  video_save :: "nat \<Rightarrow> string \<Rightarrow> exn option"

text \<open>
  The effects of a run, in program order: the calls made to the backend, the sleeps, and
  the assignments to the job.  The three assignments of the handler of
  \<^verbatim>\<open>_run_veo_job\<close> are one effect: the handler runs in the event loop with no
  \<^verbatim>\<open>await\<close> between them, while \<^verbatim>\<open>_run_veo_sync\<close> runs in a worker thread, one
  assignment at a time.
\<close>

datatype event =
    Generate_videos string
  | Sleep nat
  | Operations_get
  | Files_download nat
  | Video_save nat string
  | Set_video_path string
  | Set_video_url string
  | Set_status string
  | Set_job_notes string
  | Handler exn

fun apply_event :: "event \<Rightarrow> VeoJob \<Rightarrow> VeoJob" where
  "apply_event (Set_video_path p) job = job\<lparr>video_path := Some p\<rparr>"
| "apply_event (Set_video_url u) job = job\<lparr>video_url := Some u\<rparr>"
| "apply_event (Set_status s) job = job\<lparr>status := s\<rparr>"
| "apply_event (Set_job_notes n) job = job\<lparr>job_notes := Some n\<rparr>"
| "apply_event (Handler exc) job =
     job\<lparr>status := ''error'', error := Some exc, video_url := Some MOCK_VIDEO_URL\<rparr>"
| "apply_event _ job = job"

subsection \<open>Strings\<close>

text \<open>
  \<^verbatim>\<open>str.lower\<close> on the ASCII letters, and the substring test \<^verbatim>\<open>p in s\<close>.
\<close>

definition lower_char :: "char \<Rightarrow> char" where
  "lower_char c =
     (case map_of (zip ''ABCDEFGHIJKLMNOPQRSTUVWXYZ'' ''abcdefghijklmnopqrstuvwxyz'') c of
        Some d \<Rightarrow> d
      | None \<Rightarrow> c)"

definition lower :: "string \<Rightarrow> string" where
  "lower s = map lower_char s"

fun startswith :: "string \<Rightarrow> string \<Rightarrow> bool" where
  "startswith s [] = True"
| "startswith [] (p # ps) = False"
| "startswith (c # cs) (p # ps) = (c = p \<and> startswith cs ps)"

fun str_in :: "string \<Rightarrow> string \<Rightarrow> bool" where
  "str_in p [] = (p = [])"
| "str_in p (c # cs) = (startswith (c # cs) p \<or> str_in p cs)"

subsection \<open>The texts printed\<close>

definition attempting_text :: "string \<Rightarrow> string" where
  "attempting_text model_name = ''[INFO] Attempting Veo job with model: '' @ model_name"

definition started_text :: "string \<Rightarrow> string" where
  "started_text model_name = ''[SUCCESS] Veo job started with model '' @ model_name"

definition failed_text :: "string \<Rightarrow> exn \<Rightarrow> string" where
  "failed_text model_name exc = ''[WARNING] '' @ model_name @ '' failed: '' @ exc"

definition billing_text :: string where
  "billing_text =
     ''[WARNING] Veo requires GCP billing. Falling back to mock video for this demo.''"

definition waiting_text :: string where
  "waiting_text = ''[INFO] Veo: waiting 10s'' @ [CHR 0xE2, CHR 0x80, CHR 0xA6]"

definition saved_text :: "string \<Rightarrow> string" where
  "saved_text p = ''[SUCCESS] Veo video saved: '' @ p"

definition error_text :: "string \<Rightarrow> exn \<Rightarrow> string" where
  "error_text jid exc = ''[ERROR] Veo background job '' @ jid @ '' failed: '' @ exc"

section \<open>The model fallback loop\<close>

definition veo_models :: "string list" where
  "veo_models = [''veo-3.1-generate-preview'', ''veo-3.0-generate-001'', ''veo-2.0-generate-001'']"

text \<open>
  The body of the \<^verbatim>\<open>try\<close> for one candidate: the print, the call, the print of the
  success.  Any of the three can raise.
\<close>

definition attempt :: "backend \<Rightarrow> string \<Rightarrow> event list \<times> (exn + operation)" where
  "attempt b model_name =
     (case stdout b (attempting_text model_name) of
        Some exc \<Rightarrow> ([], Inl exc)
      | None \<Rightarrow>
          (case generate_videos b model_name of
             Inl exc \<Rightarrow> ([Generate_videos model_name], Inl exc)
           | Inr operation \<Rightarrow>
               (case stdout b (started_text model_name) of
                  Some exc \<Rightarrow> ([Generate_videos model_name], Inl exc)
                | None \<Rightarrow> ([Generate_videos model_name], Inr operation))))"

text \<open>
  The loop over the candidates.  An exception of the body is caught: the handler prints
  it, records it as \<^verbatim>\<open>last_error\<close> and sets \<^verbatim>\<open>operation = None\<close>; an exception of
  that print leaves the loop and the function (\<open>Inl\<close>).  Otherwise the result is
  \<^verbatim>\<open>last_error\<close> and \<^verbatim>\<open>operation\<close>.  The list is never empty in the source, so the
  end of the list is reached only after a failed attempt.
\<close>

fun try_models :: "backend \<Rightarrow> string list \<Rightarrow> string option \<Rightarrow>
    event list \<times> (exn + string option \<times> operation option)" where
  "try_models b [] last_error = ([], Inr (last_error, None))"
| "try_models b (model_name # rest) last_error =
     (case attempt b model_name of
        (evs, Inr operation) \<Rightarrow> (evs, Inr (last_error, Some operation))
      | (evs, Inl exc) \<Rightarrow>
          (case stdout b (failed_text model_name exc) of
             Some exc' \<Rightarrow> (evs, Inl exc')
           | None \<Rightarrow>
               (case try_models b rest (Some exc) of
                  (calls, r) \<Rightarrow> (evs @ calls, r))))"

section \<open>The poll loop\<close>

definition max_polls :: nat where
  "max_polls = 42"

text \<open>
  \<^verbatim>\<open>for _ in range(max_polls)\<close>: \<open>n\<close> iterations are left and \<open>k\<close> refreshes
  were made.  An exception of the print or of \<^verbatim>\<open>client.operations.get\<close> leaves the
  loop and the function.
\<close>

fun poll :: "backend \<Rightarrow> nat \<Rightarrow> nat \<Rightarrow> operation \<Rightarrow> event list \<times> (exn + operation)" where
  "poll b 0 k operation = ([], Inr operation)"
| "poll b (Suc n) k operation =
     (if op_done operation then ([], Inr operation)
      else
        (case stdout b waiting_text of
           Some exc \<Rightarrow> ([], Inl exc)
         | None \<Rightarrow>
             (case operations_get b k operation of
                Inl exc \<Rightarrow> ([Sleep 10, Operations_get], Inl exc)
              | Inr operation' \<Rightarrow>
                  (case poll b n (Suc k) operation' of
                     (evs, r) \<Rightarrow> (Sleep 10 # Operations_get # evs, r)))))"

section \<open>The background job\<close>

definition billing_note :: string where
  "billing_note = ''Note: Real video generation requires GCP billing. Showing sample video.''"

definition str_opt :: "string option \<Rightarrow> string" where
  "str_opt x = (case x of None \<Rightarrow> ''None'' | Some s \<Rightarrow> s)"

definition or_empty :: "string option \<Rightarrow> string" where
  "or_empty x = (case x of None \<Rightarrow> [] | Some s \<Rightarrow> s)"

text \<open>
  The end of \<^verbatim>\<open>_run_veo_sync\<close>, from the check of the polled operation on: download
  of the first video, saving it under the job id, the three assignments and the last
  print.  The result is the effects, the job as the function leaves it, and the exception
  it raises, if any.  The last print comes after the assignments, so its exception leaves
  a job that is already \<^verbatim>\<open>ready\<close>.
\<close>

definition save_video :: "backend \<Rightarrow> VeoJob \<Rightarrow> operation \<Rightarrow> event list \<times> VeoJob \<times> exn option" where
  "save_video b job operation =
     (if \<not> op_done operation then ([], job, Some ''Veo operation timed out'')
      else
        (case op_response operation of
           None \<Rightarrow> ([], job, Some ''Veo operation timed out'')
         | Some [] \<Rightarrow> ([], job, Some ''Veo returned no videos'')
         | Some (video_file # _) \<Rightarrow>
             (case files_download b video_file of
                Some exc \<Rightarrow> ([Files_download video_file], job, Some exc)
              | None \<Rightarrow>
                  (case video_save b video_file (out_path (temp b) (job_id job)) of
                     Some exc \<Rightarrow>
                       ([Files_download video_file,
                         Video_save video_file (out_path (temp b) (job_id job))], job, Some exc)
                   | None \<Rightarrow>
                       ([Files_download video_file,
                         Video_save video_file (out_path (temp b) (job_id job)),
                         Set_video_path (out_path (temp b) (job_id job)),
                         Set_video_url (''/api/field-vision/video/'' @ job_id job),
                         Set_status ''ready''],
                        job\<lparr>video_path := Some (out_path (temp b) (job_id job)),
                            video_url := Some (''/api/field-vision/video/'' @ job_id job),
                            status := ''ready''\<rparr>,
                        stdout b (saved_text (out_path (temp b) (job_id job))))))))"

text \<open>
  \<^verbatim>\<open>_run_veo_sync\<close>: the effects, the job as the function leaves it, and the exception it
  raises, if any.
\<close>

definition run_veo_sync :: "backend \<Rightarrow> VeoJob \<Rightarrow> event list \<times> VeoJob \<times> exn option" where
  "run_veo_sync b job =
     (case prelude b of
        Some exc \<Rightarrow> ([], job, Some exc)
      | None \<Rightarrow>
          (case try_models b veo_models None of
             (calls, Inl exc) \<Rightarrow> (calls, job, Some exc)
           | (calls, Inr (last_error, None)) \<Rightarrow>
               (if str_in ''billing enabled'' (lower (or_empty last_error))
                then
                  (case stdout b billing_text of
                     Some exc \<Rightarrow> (calls, job, Some exc)
                   | None \<Rightarrow>
                       (calls @ [Set_video_url MOCK_VIDEO_URL, Set_status ''ready'',
                                 Set_job_notes billing_note],
                        job\<lparr>video_url := Some MOCK_VIDEO_URL,
                            status := ''ready'',
                            job_notes := Some billing_note\<rparr>,
                        None))
                else (calls, job,
                      Some (''No Veo model available or all failed. Last error: '' @
                            str_opt last_error)))
           | (calls, Inr (last_error, Some operation)) \<Rightarrow>
               (case poll b max_polls 0 operation of
                  (evs, Inl exc) \<Rightarrow> (calls @ evs, job, Some exc)
                | (evs, Inr operation') \<Rightarrow>
                    (case save_video b job operation' of
                       (evs', r) \<Rightarrow> (calls @ evs @ evs', r)))))"

text \<open>
  \<^verbatim>\<open>_run_veo_job\<close>: the background task.  Every exception of \<^verbatim>\<open>_run_veo_sync\<close>
  ends in the handler, whose first statement is a print; when that print raises, the
  exception leaves the task, which nobody awaits, and the handler has assigned nothing.
  The result is the effects and the job as the task leaves it.
\<close>

definition run_veo_job :: "backend \<Rightarrow> VeoJob \<Rightarrow> event list \<times> VeoJob" where
  "run_veo_job b job =
     (case run_veo_sync b job of
        (evs, job', None) \<Rightarrow> (evs, job')
      | (evs, job', Some exc) \<Rightarrow>
          (case stdout b (error_text (job_id job') exc) of
             Some exc' \<Rightarrow> (evs, job')
           | None \<Rightarrow>
               (evs @ [Handler exc],
                job'\<lparr>status := ''error'', error := Some exc,
                     video_url := Some MOCK_VIDEO_URL\<rparr>)))"

section \<open>The service\<close>

text \<open>
  \<^verbatim>\<open>VeoService\<close> holds the cached client (\<^verbatim>\<open>_client\<close>) and the job dictionary
  (\<^verbatim>\<open>_jobs\<close>).  The dictionary keeps its keys in insertion order and its values are
  references to \<^verbatim>\<open>VeoJob\<close> objects, which the background task mutates through its
  own handle.  The objects live in a heap, a list indexed by reference.
\<close>

datatype genai_client = Client string

record VeoService =
  client :: "genai_client option"
  jobs :: "(string \<times> nat) list"

text \<open>
  What \<^verbatim>\<open>_get_client\<close> reads from outside: \<^verbatim>\<open>settings.gemini_api_key\<close>, and the
  outcome of importing the library and constructing \<^verbatim>\<open>genai.Client(api_key=...)\<close>.
\<close>

record environment =
  gemini_api_key :: "string option"
  genai_Client :: "string \<Rightarrow> exn + genai_client"

definition get_client :: "environment \<Rightarrow> VeoService \<Rightarrow> genai_client option \<times> VeoService" where
  "get_client env svc =
     (case client svc of
        Some c \<Rightarrow> (Some c, svc)
      | None \<Rightarrow>
          (case gemini_api_key env of
             None \<Rightarrow> (None, svc)
           | Some api_key \<Rightarrow>
               (if api_key = [] then (None, svc)
                else
                  (case genai_Client env api_key of
                     Inr c \<Rightarrow> (Some c, svc\<lparr>client := Some c\<rparr>)
                   | Inl exc \<Rightarrow> (None, svc)))))"

text \<open>
  The world around the service: the heap of job objects; the background tasks that were
  created and have not started (each holds the reference of its job); the tasks that
  run, each with the effects it still has to make; the effects made so far, each with the
  job it belongs to; and the value of \<^verbatim>\<open>TEMP\<close> from which \<^verbatim>\<open>VIDEO_DIR\<close> was
  computed.
\<close>

record world =
  service :: VeoService
  objs :: "VeoJob list"
  tasks :: "nat list"
  running :: "(nat \<times> event list) list"
  history :: "(nat \<times> event) list"
  temp_dir :: "string option"

definition init_world :: world where
  "init_world =
     \<lparr>service = \<lparr>client = None, jobs = []\<rparr>, objs = [], tasks = [], running = [],
      history = [], temp_dir = None\<rparr>"

text \<open>
  \<^verbatim>\<open>generate_video\<close>: \<open>uuid\<close> is the value of \<^verbatim>\<open>str(uuid.uuid4())\<close> and \<open>now\<close>
  that of \<^verbatim>\<open>time.time()\<close>.  The image and its mime type only travel to the backend.
  The result is the returned pair and the world after the call.
\<close>

definition generate_video ::
    "environment \<Rightarrow> string \<Rightarrow> real \<Rightarrow> FieldAnalytics \<Rightarrow> world \<Rightarrow> (string \<times> string option) \<times> world" where
  "generate_video env uuid now a w =
     (let job = new_VeoJob uuid (Some a) now;
          r = length (objs w);
          svc = (service w)\<lparr>jobs := AList.update uuid r (jobs (service w))\<rparr>
      in
        (case get_client env svc of
           (None, svc') \<Rightarrow>
             ((uuid, Some MOCK_VIDEO_URL),
              w\<lparr>service := svc',
                objs := objs w @ [job\<lparr>status := ''ready'', video_url := Some MOCK_VIDEO_URL\<rparr>],
                history := history w @ [(r, Set_status ''ready'')]\<rparr>)
         | (Some c, svc') \<Rightarrow>
             ((uuid, None),
              w\<lparr>service := svc', objs := objs w @ [job], tasks := tasks w @ [r]\<rparr>)))"

text \<open>
  A background task starts: what it will do is \<^verbatim>\<open>_run_veo_job\<close> on the object it
  holds, which reads nothing of the job but its id.  A running task makes its next
  effect, on that object.
\<close>

definition start_task :: "backend \<Rightarrow> nat \<Rightarrow> world \<Rightarrow> world" where
  "start_task b r w =
     w\<lparr>tasks := remove1 r (tasks w),
       running := running w @ [(r, fst (run_veo_job b (objs w ! r)))]\<rparr>"

definition advance_task :: "nat \<Rightarrow> world \<Rightarrow> world" where
  "advance_task r w =
     (case map_of (running w) r of
        Some (e # es) \<Rightarrow>
          w\<lparr>objs := (objs w)[r := apply_event e (objs w ! r)],
            running := AList.update r es (running w),
            history := history w @ [(r, e)]\<rparr>
      | _ \<Rightarrow> w)"

definition get_job :: "world \<Rightarrow> string \<Rightarrow> VeoJob option" where
  "get_job w jid = map_option (\<lambda>r. objs w ! r) (map_of (jobs (service w)) jid)"

text \<open>
  The file system is the set of paths that exist.  \<^verbatim>\<open>os.remove\<close> fails on a path
  that does not.
\<close>

definition get_video_path :: "world \<Rightarrow> string set \<Rightarrow> string \<Rightarrow> string option" where
  "get_video_path w fs jid =
     (case get_job w jid of
        None \<Rightarrow> None
      | Some job \<Rightarrow>
          (case video_path job of
             None \<Rightarrow> None
           | Some p \<Rightarrow> if p \<noteq> [] \<and> p \<in> fs then Some p else None))"

text \<open>
  \<^verbatim>\<open>os.remove\<close>: a missing path raises; on a path that exists \<open>rm\<close> gives the
  \<^verbatim>\<open>OSError\<close> the call raises (no permission, a directory, a file in use), or
  \<open>None\<close> when the file is removed.
\<close>

definition os_remove :: "(string \<Rightarrow> exn option) \<Rightarrow> string \<Rightarrow> string set \<Rightarrow> exn + string set" where
  "os_remove rm p fs =
     (if p \<notin> fs then Inl ''FileNotFoundError''
      else (case rm p of Some exc \<Rightarrow> Inl exc | None \<Rightarrow> Inr (fs - {p})))"

definition is_expired :: "real \<Rightarrow> int \<Rightarrow> VeoJob \<Rightarrow> bool" where
  "is_expired now max_age_seconds job \<longleftrightarrow> now - created_at job > of_int max_age_seconds"

definition expired :: "real \<Rightarrow> int \<Rightarrow> VeoJob list \<Rightarrow> (string \<times> nat) list \<Rightarrow> string list" where
  "expired now max_age_seconds heap items =
     map fst (filter (\<lambda>(jid, r). is_expired now max_age_seconds (heap ! r)) items)"

text \<open>
  The loop of \<^verbatim>\<open>cleanup_old_jobs\<close> over the expired ids: \<^verbatim>\<open>pop\<close> (a missing key
  raises), then the removal of the file, whose \<^verbatim>\<open>OSError\<close> is swallowed.
\<close>

fun remove_expired :: "(string \<Rightarrow> exn option) \<Rightarrow> VeoJob list \<Rightarrow> string list \<Rightarrow>
    (string \<times> nat) list \<Rightarrow> string set \<Rightarrow> exn + (string \<times> nat) list \<times> string set" where
  "remove_expired rm heap [] items fs = Inr (items, fs)"
| "remove_expired rm heap (jid # rest) items fs =
     (case map_of items jid of
        None \<Rightarrow> Inl ''KeyError''
      | Some r \<Rightarrow>
          remove_expired rm heap rest (AList.delete jid items)
            (case video_path (heap ! r) of
               None \<Rightarrow> fs
             | Some p \<Rightarrow>
                 (if p \<noteq> [] \<and> p \<in> fs
                  then (case os_remove rm p fs of Inr fs' \<Rightarrow> fs' | Inl exc \<Rightarrow> fs)
                  else fs)))"

definition cleanup_old_jobs ::
    "(string \<Rightarrow> exn option) \<Rightarrow> real \<Rightarrow> int \<Rightarrow> world \<Rightarrow> string set \<Rightarrow> exn + world \<times> string set" where
  "cleanup_old_jobs rm now max_age_seconds w fs =
     (case remove_expired rm (objs w)
             (expired now max_age_seconds (objs w) (jobs (service w))) (jobs (service w)) fs of
        Inl exc \<Rightarrow> Inl exc
      | Inr (items, fs') \<Rightarrow> Inr (w\<lparr>service := (service w)\<lparr>jobs := items\<rparr>\<rparr>, fs'))"

section \<open>The image analysis\<close>

text \<open>
  The value \<^verbatim>\<open>json.loads\<close> returns.  \<open>JFloat\<close> is a finite float.
\<close>

datatype json =
    JNull
  | JBool bool
  | JInt int
  | JFloat real
  | JStr string
  | JList "json list"
  | JDict "(string \<times> json) list"

text \<open>
  The library functions the analysis calls on text, taken as they are:
  \<^verbatim>\<open>str.strip\<close>, \<^verbatim>\<open>json.loads\<close>, \<^verbatim>\<open>int\<close> and \<^verbatim>\<open>float\<close> of a string,
  \<^verbatim>\<open>float\<close> of an integer, and \<^verbatim>\<open>str\<close> of a value that is not a string.
\<close>

record builtins =
  py_strip :: "string \<Rightarrow> string"
  json_loads :: "string \<Rightarrow> exn + json"
  int_of_str :: "string \<Rightarrow> exn + int"
  float_of_str :: "string \<Rightarrow> exn + real"
  float_of_int :: "int \<Rightarrow> exn + real"
  str_of_json :: "json \<Rightarrow> string"

definition py_int :: "builtins \<Rightarrow> json \<Rightarrow> exn + int" where
  "py_int p v =
     (case v of
        JInt i \<Rightarrow> Inr i
      | JBool b \<Rightarrow> Inr (if b then 1 else 0)
      | JFloat x \<Rightarrow> Inr (if 0 \<le> x then \<lfloor>x\<rfloor> else \<lceil>x\<rceil>)
      | JStr s \<Rightarrow> int_of_str p s
      | _ \<Rightarrow> Inl ''TypeError'')"

definition py_float :: "builtins \<Rightarrow> json \<Rightarrow> exn + real" where
  "py_float p v =
     (case v of
        JFloat x \<Rightarrow> Inr x
      | JInt i \<Rightarrow> float_of_int p i
      | JBool b \<Rightarrow> Inr (if b then 1 else 0)
      | JStr s \<Rightarrow> float_of_str p s
      | _ \<Rightarrow> Inl ''TypeError'')"

definition py_str :: "builtins \<Rightarrow> json \<Rightarrow> string" where
  "py_str p v = (case v of JStr s \<Rightarrow> s | _ \<Rightarrow> str_of_json p v)"

definition dict_get :: "(string \<times> json) list \<Rightarrow> string \<Rightarrow> json \<Rightarrow> json" where
  "dict_get d k dflt = (case map_of d k of Some v \<Rightarrow> v | None \<Rightarrow> dflt)"

definition bind_exn :: "exn + 'a \<Rightarrow> ('a \<Rightarrow> exn + 'b) \<Rightarrow> exn + 'b" where
  "bind_exn x f = (case x of Inl exc \<Rightarrow> Inl exc | Inr v \<Rightarrow> f v)"

text \<open>
  The construction of \<^verbatim>\<open>FieldAnalytics\<close> from the parsed answer; the arguments are
  evaluated in the order written, and the first exception ends it.
\<close>

definition analytics_of_data :: "builtins \<Rightarrow> json \<Rightarrow> exn + FieldAnalytics" where
  "analytics_of_data p data =
     (case data of
        JDict d \<Rightarrow>
          bind_exn (py_float p (dict_get d ''land_area_ha'' (JFloat 10.0))) (\<lambda>land.
          bind_exn (py_float p (dict_get d ''water_need_l_per_day'' (JFloat 3500.0))) (\<lambda>water.
          bind_exn (py_float p (dict_get d ''profit_usd_per_ha'' (JFloat 1000.0))) (\<lambda>profit.
          bind_exn (py_int p (dict_get d ''risk_score'' (JInt 30))) (\<lambda>risk.
          bind_exn (py_int p (dict_get d ''sustainability_score'' (JInt 65))) (\<lambda>sust.
            Inr \<lparr>land_area_ha = land,
                 water_need_l_per_day = water,
                 profit_usd_per_ha = profit,
                 risk_score = risk,
                 risk_label = py_str p (dict_get d ''risk_label'' (JStr ''Moderate'')),
                 sustainability_score = sust,
                 soil_type = py_str p (dict_get d ''soil_type'' (JStr ''Unknown'')),
                 dominant_vegetation =
                   py_str p (dict_get d ''dominant_vegetation'' (JStr ''Unknown'')),
                 recommended_crop = py_str p (dict_get d ''recommended_crop'' (JStr ''N/A'')),
                 veo_prompt = py_str p (dict_get d ''veo_prompt'' (JStr [])),
                 is_mock = False,
                 analytics_notes = py_str p (dict_get d ''notes'' (JStr []))\<rparr>)))))
      | _ \<Rightarrow> Inl ''AttributeError'')"

text \<open>
  The vision side of the backend: the outcome of the imports, and the answer to
  \<^verbatim>\<open>generate_content\<close> by model name: an exception, a falsy response (\<open>None\<close>),
  or a response with its \<^verbatim>\<open>text\<close>, which may be absent.
\<close>

record vision =
  vision_prelude :: "exn option"
  generate_content :: "string \<Rightarrow> exn + string option option"

definition analysis_models :: "string list" where
  "analysis_models = [''gemini-2.0-flash-lite'', ''gemini-2.5-flash'', ''gemini-flash-latest'']"

fun try_analysis :: "vision \<Rightarrow> string list \<Rightarrow> string option option \<Rightarrow> string option \<Rightarrow>
    string option option \<times> string option" where
  "try_analysis g [] response last_analysis_error = (response, last_analysis_error)"
| "try_analysis g (model_name # rest) response last_analysis_error =
     (case generate_content g model_name of
        Inl e \<Rightarrow> try_analysis g rest response (Some e)
      | Inr None \<Rightarrow> try_analysis g rest None last_analysis_error
      | Inr (Some r) \<Rightarrow> (Some r, last_analysis_error))"

text \<open>The text between the opening fence and the next one: \<^verbatim>\<open>raw.split("```")[1]\<close>.\<close>

fun until_fence :: "string \<Rightarrow> string" where
  "until_fence [] = []"
| "until_fence (c # cs) = (if startswith (c # cs) ''```'' then [] else c # until_fence cs)"

definition strip_fences :: "string \<Rightarrow> string" where
  "strip_fences raw =
     (if startswith raw ''```''
      then (let raw' = until_fence (drop 3 raw)
            in if startswith raw' ''json'' then drop 4 raw' else raw')
      else raw)"

definition analysis :: "builtins \<Rightarrow> vision \<Rightarrow> exn + FieldAnalytics" where
  "analysis p g =
     (case vision_prelude g of
        Some exc \<Rightarrow> Inl exc
      | None \<Rightarrow>
          (case try_analysis g analysis_models None None of
             (None, last_analysis_error) \<Rightarrow>
               Inl (case last_analysis_error of
                      Some e \<Rightarrow> e
                    | None \<Rightarrow> ''All analysis models failed'')
           | (Some None, _) \<Rightarrow> Inl ''AttributeError''
           | (Some (Some text), _) \<Rightarrow>
               bind_exn (json_loads p (strip_fences (py_strip p text))) (analytics_of_data p)))"

text \<open>
  \<^verbatim>\<open>_analyze_image_sync\<close>.  \<open>mock\<close> is the module's \<^verbatim>\<open>MOCK_ANALYTICS\<close> object, which
  the error path writes to; the result is the value returned, that object and the
  service after the call.  A job keeps its analytics by value: the note written to the
  mock object is not followed into the jobs that were given that object.
\<close>

definition analyze_image_sync ::
    "environment \<Rightarrow> builtins \<Rightarrow> vision \<Rightarrow> FieldAnalytics \<Rightarrow> VeoService \<Rightarrow>
     FieldAnalytics \<times> FieldAnalytics \<times> VeoService" where
  "analyze_image_sync env p g mock svc =
     (case get_client env svc of
        (None, svc') \<Rightarrow> (mock, mock, svc')
      | (Some c, svc') \<Rightarrow>
          (case analysis p g of
             Inr a \<Rightarrow> (a, mock, svc')
           | Inl exc \<Rightarrow>
               (mock\<lparr>analytics_notes := ''Using mock data due to analysis error: '' @ exc\<rparr>,
                mock\<lparr>analytics_notes := ''Using mock data due to analysis error: '' @ exc\<rparr>,
                svc')))"

section \<open>Runs of the service\<close>

text \<open>
  One operation of the service: a request is submitted, an image is analysed, a
  background task that was created starts, a running task makes its next effect, the
  janitor sweeps.  The lookups \<^verbatim>\<open>get_job\<close> and \<^verbatim>\<open>get_video_path\<close> change nothing.
  The service starts with no client and no job, under some value of \<^verbatim>\<open>TEMP\<close>.
\<close>

inductive step :: "world \<Rightarrow> world \<Rightarrow> bool" where
  submit: "step w (snd (generate_video env uuid now a w))"
| analyze: "step w (w\<lparr>service := snd (snd (analyze_image_sync env p g mock (service w)))\<rparr>)"
| start: "r \<in> set (tasks w) \<Longrightarrow> temp b = temp_dir w \<Longrightarrow> step w (start_task b r w)"
| advance: "step w (advance_task r w)"
| sweep: "cleanup_old_jobs rm now max_age_seconds w fs = Inr (w', fs') \<Longrightarrow> step w w'"

inductive reachable :: "world \<Rightarrow> bool" where
  start: "reachable (init_world\<lparr>temp_dir := t\<rparr>)"
| later: "reachable w \<Longrightarrow> step w w' \<Longrightarrow> reachable w'"

text \<open>The effects that assign nothing to the job.\<close>

fun quiet :: "event \<Rightarrow> bool" where
  "quiet (Set_video_path p) = False"
| "quiet (Set_video_url u) = False"
| "quiet (Set_status s) = False"
| "quiet (Set_job_notes n) = False"
| "quiet (Handler exc) = False"
| "quiet _ = True"

text \<open>
  The values assigned to \<^verbatim>\<open>job.status\<close> among some effects, in order, and those
  assigned to the status of the object \<open>r\<close> in a history.
\<close>

definition status_events :: "event list \<Rightarrow> string list" where
  "status_events evs =
     concat (map (\<lambda>e. case e of Set_status s \<Rightarrow> [s] | Handler exc \<Rightarrow> [''error''] | _ \<Rightarrow> []) evs)"

definition status_writes :: "nat \<Rightarrow> (nat \<times> event) list \<Rightarrow> string list" where
  "status_writes r h = status_events (map snd (filter (\<lambda>p. fst p = r) h))"

definition terminal :: "string \<Rightarrow> bool" where
  "terminal s \<longleftrightarrow> s = ''ready'' \<or> s = ''error''"

text \<open>
  What every world of a run satisfies.  A job is \<^verbatim>\<open>generating\<close>, or \<^verbatim>\<open>ready\<close> with
  a locator, or \<^verbatim>\<open>error\<close> with the substitute locator, and a recorded path is the one
  derived from the job id; this stays so along the effects a running task still has to
  make.  No two tasks hold the same job, and a task that has not started holds a job that
  is \<^verbatim>\<open>generating\<close>.
\<close>

definition job_ok :: "string option \<Rightarrow> VeoJob \<Rightarrow> bool" where
  "job_ok t job \<longleftrightarrow>
     (status job = ''generating'' \<or>
      (status job = ''ready'' \<and> video_url job \<noteq> None) \<or>
      (status job = ''error'' \<and> video_url job = Some MOCK_VIDEO_URL)) \<and>
     (video_path job = None \<or> video_path job = Some (out_path t (job_id job)))"

fun safe :: "string option \<Rightarrow> VeoJob \<Rightarrow> event list \<Rightarrow> bool" where
  "safe t job [] = job_ok t job"
| "safe t job (e # es) = (job_ok t job \<and> safe t (apply_event e job) es)"

definition store_ok :: "string option \<Rightarrow> VeoJob list \<Rightarrow> (string \<times> nat) list \<Rightarrow> bool" where
  "store_ok t heap items \<longleftrightarrow>
     distinct (map fst items) \<and>
     (\<forall>(jid, r)\<in>set items. r < length heap \<and> job_id (heap ! r) = jid \<and>
        (video_path (heap ! r) = None \<or> video_path (heap ! r) = Some (out_path t jid)))"

definition world_ok :: "world \<Rightarrow> bool" where
  "world_ok w \<longleftrightarrow>
     distinct (tasks w @ map fst (running w)) \<and>
     (\<forall>r\<in>set (tasks w). r < length (objs w) \<and> status (objs w ! r) = ''generating'') \<and>
     (\<forall>(r, es)\<in>set (running w). r < length (objs w) \<and> safe (temp_dir w) (objs w ! r) es) \<and>
     (\<forall>r<length (objs w). job_ok (temp_dir w) (objs w ! r)) \<and>
     distinct (map fst (jobs (service w))) \<and>
     (\<forall>(jid, r)\<in>set (jobs (service w)). r < length (objs w) \<and> job_id (objs w ! r) = jid)"

section \<open>Example inputs\<close>

definition demo_job :: VeoJob where
  "demo_job = new_VeoJob ''job-1'' (Some MOCK_ANALYTICS) 0"

definition not_started :: operation where
  "not_started = \<lparr>op_done = False, op_response = None\<rparr>"

definition finished :: operation where
  "finished = \<lparr>op_done = True, op_response = Some [7]\<rparr>"

text \<open>
  A standard output that writes every text, and one with the ASCII encoding, on which
  \<^verbatim>\<open>print\<close> raises \<^verbatim>\<open>UnicodeEncodeError\<close> for a text with a character outside ASCII.
  The message of that exception is itself ASCII.
\<close>

definition any_stdout :: "string \<Rightarrow> exn option" where
  "any_stdout text = None"

definition unicode_error :: exn where
  "unicode_error = ''ascii codec cannot encode character: ordinal not in range(128)''"

definition ascii_stdout :: "string \<Rightarrow> exn option" where
  "ascii_stdout text = (if list_all (\<lambda>c. \<not> digit7 c) text then None else Some unicode_error)"

text \<open>Every candidate is refused for want of billing.\<close>

definition billing_backend :: backend where
  "billing_backend =
     \<lparr>prelude = None, temp = None, stdout = any_stdout,
      generate_videos = (\<lambda>m. Inl ''400 FAILED_PRECONDITION: Veo needs a project with Billing Enabled''),
      operations_get = (\<lambda>k operation. Inr operation),
      files_download = (\<lambda>v. None),
      video_save = (\<lambda>v p. None)\<rparr>"

text \<open>
  The first two candidates are refused for want of billing, the last one is unknown to
  the backend.
\<close>

definition early_billing_backend :: backend where
  "early_billing_backend =
     \<lparr>prelude = None, temp = None, stdout = any_stdout,
      generate_videos = (\<lambda>m. if m = ''veo-2.0-generate-001''
         then Inl ''404 NOT_FOUND: model veo-2.0-generate-001''
         else Inl ''400 FAILED_PRECONDITION: Veo needs a project with Billing Enabled''),
      operations_get = (\<lambda>k operation. Inr operation),
      files_download = (\<lambda>v. None),
      video_save = (\<lambda>v p. None)\<rparr>"

text \<open>Every candidate is refused for want of quota.\<close>

definition quota_backend :: backend where
  "quota_backend =
     \<lparr>prelude = None, temp = None, stdout = any_stdout,
      generate_videos = (\<lambda>m. Inl ''429 RESOURCE_EXHAUSTED''),
      operations_get = (\<lambda>k operation. Inr operation),
      files_download = (\<lambda>v. None),
      video_save = (\<lambda>v p. None)\<rparr>"

text \<open>
  The first candidate starts an operation that is done after two refreshes, and the
  video is delivered.
\<close>

definition good_backend :: backend where
  "good_backend =
     \<lparr>prelude = None, temp = None, stdout = any_stdout,
      generate_videos = (\<lambda>m. Inr not_started),
      operations_get = (\<lambda>k operation. Inr (if k < 1 then not_started else finished)),
      files_download = (\<lambda>v. None),
      video_save = (\<lambda>v p. None)\<rparr>"

text \<open>
  Standard output is ASCII.  Only the candidate \<open>C\<close> starts an operation; the others
  are refused with a message that has an accent in it.
\<close>

definition accent_message :: exn where
  "accent_message = ''503 mod'' @ [CHR 0xC3, CHR 0xA8] @ ''le indisponible''"

definition accent_backend :: backend where
  "accent_backend =
     \<lparr>prelude = None, temp = None, stdout = ascii_stdout,
      generate_videos = (\<lambda>m. if m = ''C'' then Inr finished else Inl accent_message),
      operations_get = (\<lambda>k operation. Inr operation),
      files_download = (\<lambda>v. None),
      video_save = (\<lambda>v p. None)\<rparr>"

text \<open>
  Standard output is ASCII.  The first candidate starts an operation that is never
  done.
\<close>

definition stuck_backend :: backend where
  "stuck_backend =
     \<lparr>prelude = None, temp = None, stdout = ascii_stdout,
      generate_videos = (\<lambda>m. Inr not_started),
      operations_get = (\<lambda>k operation. Inr not_started),
      files_download = (\<lambda>v. None),
      video_save = (\<lambda>v p. None)\<rparr>"

text \<open>
  Standard output is ASCII.  The first candidate starts an operation that is done at
  once, and the download of its video is refused with a message that has an accent in
  it.
\<close>

definition refused_message :: exn where
  "refused_message = ''403 t'' @ [CHR 0xC3, CHR 0xA9] @ ''l'' @ [CHR 0xC3, CHR 0xA9] @
     ''chargement refus'' @ [CHR 0xC3, CHR 0xA9]"

definition refused_backend :: backend where
  "refused_backend =
     \<lparr>prelude = None, temp = None, stdout = ascii_stdout,
      generate_videos = (\<lambda>m. Inr finished),
      operations_get = (\<lambda>k operation. Inr operation),
      files_download = (\<lambda>v. Some refused_message),
      video_save = (\<lambda>v p. None)\<rparr>"

text \<open>
  Standard output is ASCII and \<^verbatim>\<open>TEMP\<close> is a directory with an umlaut in its name.
  The first candidate starts an operation that is done at once, and the video is
  delivered.
\<close>

definition umlaut_temp :: "string option" where
  "umlaut_temp = Some (''/home/zo'' @ [CHR 0xC3, CHR 0xAB] @ ''/tmp'')"

definition umlaut_backend :: backend where
  "umlaut_backend =
     \<lparr>prelude = None, temp = umlaut_temp, stdout = ascii_stdout,
      generate_videos = (\<lambda>m. Inr finished),
      operations_get = (\<lambda>k operation. Inr operation),
      files_download = (\<lambda>v. None),
      video_save = (\<lambda>v p. None)\<rparr>"

text \<open>No key is configured; a key is configured and the client can be built.\<close>

definition env_no_key :: environment where
  "env_no_key = \<lparr>gemini_api_key = None, genai_Client = (\<lambda>k. Inl ''ImportError'')\<rparr>"

definition env_key :: environment where
  "env_key = \<lparr>gemini_api_key = Some ''key'', genai_Client = (\<lambda>k. Inr (Client k))\<rparr>"

text \<open>
  A request was submitted with a client at hand.  Then its task ran to the end against
  the backend without quota; or against the backend that delivers, up to the assignment
  of the path, and to the end.
\<close>

definition world_submitted :: world where
  "world_submitted = snd (generate_video env_key ''job-1'' 0 MOCK_ANALYTICS init_world)"

definition world_failed :: world where
  "world_failed = (advance_task 0 ^^ 4) (start_task quota_backend 0 world_submitted)"

definition world_path_set :: world where
  "world_path_set = (advance_task 0 ^^ 8) (start_task good_backend 0 world_submitted)"

definition world_done :: world where
  "world_done = (advance_task 0 ^^ 10) (start_task good_backend 0 world_submitted)"

text \<open>
  The same request when the download is refused, the task run to its end.
\<close>

definition world_refused :: world where
  "world_refused = (advance_task 0 ^^ 2) (start_task refused_backend 0 world_submitted)"

text \<open>
  The same request under the \<^verbatim>\<open>TEMP\<close> with the umlaut: the task up to the assignment of
  \<^verbatim>\<open>ready\<close>, and after its next effect.
\<close>

definition world_umlaut_ready :: world where
  "world_umlaut_ready =
     (advance_task 0 ^^ 6)
       (start_task umlaut_backend 0
          (snd (generate_video env_key ''job-1'' 0 MOCK_ANALYTICS
                  (init_world\<lparr>temp_dir := umlaut_temp\<rparr>))))"

definition world_umlaut_error :: world where
  "world_umlaut_error = advance_task 0 world_umlaut_ready"

text \<open>
  Two jobs whose videos were delivered, the second one created later; both files exist.
  The file of the first job cannot be removed.
\<close>

definition world_two :: world where
  "world_two =
     \<lparr>service = \<lparr>client = Some (Client ''key''), jobs = [(''job-1'', 0), (''job-2'', 1)]\<rparr>,
      objs = [demo_job\<lparr>video_path := Some (out_path None ''job-1''),
                video_url := Some ''/api/field-vision/video/job-1'',
                status := ''ready''\<rparr>,
              (new_VeoJob ''job-2'' (Some MOCK_ANALYTICS) 100000)
               \<lparr>video_path := Some (out_path None ''job-2''),
                video_url := Some ''/api/field-vision/video/job-2'',
                status := ''ready''\<rparr>],
      tasks = [], running = [], history = [], temp_dir = None\<rparr>"

definition two_files :: "string set" where
  "two_files = {out_path None ''job-1'', out_path None ''job-2''}"

definition locked :: "string \<Rightarrow> exn option" where
  "locked p = (if p = out_path None ''job-1'' then Some ''PermissionError'' else None)"

text \<open>
  The vision model answers with scores outside the range it was asked for.  The library
  functions are given where this answer needs them: the text has no outer blanks, and it
  parses to the dictionary shown.
\<close>

definition hot_answer :: string where
  \<open>hot_answer = ''{"risk_score": 150, "sustainability_score": -5}''\<close>

definition hot_vision :: vision where
  "hot_vision = \<lparr>vision_prelude = None, generate_content = (\<lambda>m. Inr (Some (Some hot_answer)))\<rparr>"

definition demo_builtins :: builtins where
  "demo_builtins =
     \<lparr>py_strip = (\<lambda>s. s),
      json_loads = (\<lambda>s. if s = hot_answer
         then Inr (JDict [(''risk_score'', JInt 150), (''sustainability_score'', JInt (- 5))])
         else Inl ''JSONDecodeError''),
      int_of_str = (\<lambda>s. Inl ''ValueError''),
      float_of_str = (\<lambda>s. Inl ''ValueError''),
      float_of_int = (\<lambda>i. Inr (of_int i)),
      str_of_json = (\<lambda>v. [])\<rparr>"

section \<open>The effects of a run\<close>

lemma apply_event_job_id [simp]: "job_id (apply_event e job) = job_id job"
  by (cases e) simp_all

lemma apply_event_created_at [simp]: "created_at (apply_event e job) = created_at job"
  by (cases e) simp_all

lemma quiet_attempt: "\<forall>e\<in>set (fst (attempt b m)). \<exists>x. e = Generate_videos x"
  by (auto simp: attempt_def split: option.splits sum.splits)

lemma quiet_try_models: "\<forall>e\<in>set (fst (try_models b ms le)). \<exists>x. e = Generate_videos x"
proof (induction ms arbitrary: le)
  case Nil
  show ?case by simp
next
  case (Cons m ms)
  obtain evs r where a: "attempt b m = (evs, r)" by (cases "attempt b m") auto
  with quiet_attempt[of b m] have q: "\<forall>e\<in>set evs. \<exists>x. e = Generate_videos x" by simp
  show ?case
  proof (cases r)
    case (Inr h)
    with a q show ?thesis by simp
  next
    case (Inl exc)
    show ?thesis
    proof (cases "stdout b (failed_text m exc)")
      case (Some e')
      with a Inl q show ?thesis by simp
    next
      case None
      obtain calls r' where t: "try_models b ms (Some exc) = (calls, r')"
        by (cases "try_models b ms (Some exc)") auto
      with Cons[of "Some exc"] have "\<forall>e\<in>set calls. \<exists>x. e = Generate_videos x" by simp
      with a Inl None t q show ?thesis by auto
    qed
  qed
qed

lemma quiet_poll: "\<forall>e\<in>set (fst (poll b n k operation)). e = Sleep 10 \<or> e = Operations_get"
proof (induction n arbitrary: k operation)
  case 0
  show ?case by simp
next
  case (Suc n)
  show ?case
  proof (cases "operations_get b k operation")
    case (Inl e)
    then show ?thesis by (simp split: option.splits)
  next
    case (Inr op')
    obtain evs r where p: "poll b n (Suc k) op' = (evs, r)" by (cases "poll b n (Suc k) op'") auto
    with Suc[of "Suc k" op'] have "\<forall>e\<in>set evs. e = Sleep 10 \<or> e = Operations_get" by simp
    with Inr p show ?thesis by (auto split: option.splits)
  qed
qed

lemma quiet_apply [simp]: "quiet e \<Longrightarrow> apply_event e job = job"
  by (cases e) simp_all

lemma fold_quiet [simp]: "\<forall>e\<in>set pre. quiet e \<Longrightarrow> fold apply_event pre job = job"
  by (induction pre) simp_all

lemma safe_job_ok: "safe t job es \<Longrightarrow> job_ok t job"
  by (cases es) simp_all

lemma safe_quiet: "\<forall>e\<in>set pre. quiet e \<Longrightarrow> safe t job es \<Longrightarrow> safe t job (pre @ es)"
  by (induction pre) (simp_all add: safe_job_ok)

text \<open>
  The run of \<^verbatim>\<open>_run_veo_sync\<close> makes effects that assign nothing and then raises with
  the job as it was, or makes the assignments of the billing fallback and returns, or
  makes the assignments of the success and returns or raises.
\<close>

lemma save_video_shape:
  "\<exists>pre. (\<forall>e\<in>set pre. quiet e) \<and>
     ((\<exists>exc. save_video b job operation = (pre, job, Some exc)) \<or>
      (\<exists>x. save_video b job operation =
         (pre @ [Set_video_path (out_path (temp b) (job_id job)),
                 Set_video_url (''/api/field-vision/video/'' @ job_id job),
                 Set_status ''ready''],
          job\<lparr>video_path := Some (out_path (temp b) (job_id job)),
              video_url := Some (''/api/field-vision/video/'' @ job_id job),
              status := ''ready''\<rparr>, x)))"
proof (cases "op_done operation")
  case False
  then show ?thesis by (intro exI[of _ "[]"]) (simp add: save_video_def)
next
  case True
  show ?thesis
  proof (cases "op_response operation")
    case None
    with True show ?thesis by (intro exI[of _ "[]"]) (simp add: save_video_def)
  next
    case (Some vs)
    show ?thesis
    proof (cases vs)
      case Nil
      with True Some show ?thesis by (intro exI[of _ "[]"]) (simp add: save_video_def)
    next
      case (Cons v rest)
      show ?thesis
      proof (cases "files_download b v")
        case (Some e)
        with True \<open>op_response operation = Some vs\<close> Cons show ?thesis
          by (intro exI[of _ "[Files_download v]"]) (simp add: save_video_def)
      next
        case None
        then show ?thesis using True \<open>op_response operation = Some vs\<close> Cons
          by (intro exI[of _ "[Files_download v, Video_save v (out_path (temp b) (job_id job))]"])
             (simp add: save_video_def split: option.splits)
      qed
    qed
  qed
qed

lemma run_veo_sync_shape:
  "\<exists>pre. (\<forall>e\<in>set pre. quiet e) \<and>
     ((\<exists>exc. run_veo_sync b job = (pre, job, Some exc)) \<or>
      run_veo_sync b job =
        (pre @ [Set_video_url MOCK_VIDEO_URL, Set_status ''ready'', Set_job_notes billing_note],
         job\<lparr>video_url := Some MOCK_VIDEO_URL, status := ''ready'',
             job_notes := Some billing_note\<rparr>, None) \<or>
      (\<exists>x. run_veo_sync b job =
         (pre @ [Set_video_path (out_path (temp b) (job_id job)),
                 Set_video_url (''/api/field-vision/video/'' @ job_id job),
                 Set_status ''ready''],
          job\<lparr>video_path := Some (out_path (temp b) (job_id job)),
              video_url := Some (''/api/field-vision/video/'' @ job_id job),
              status := ''ready''\<rparr>, x)))"
proof (cases "prelude b")
  case (Some e)
  then show ?thesis by (intro exI[of _ "[]"]) (simp add: run_veo_sync_def)
next
  case None
  obtain calls r where tm: "try_models b veo_models None = (calls, r)"
    by (cases "try_models b veo_models None") auto
  from quiet_try_models[of b veo_models None] tm have qc: "\<forall>e\<in>set calls. quiet e" by auto
  show ?thesis
  proof (cases r)
    case (Inl exc)
    with None tm qc show ?thesis by (intro exI[of _ calls]) (simp add: run_veo_sync_def)
  next
    case (Inr lo)
    obtain le opn where lo: "lo = (le, opn)" by (cases lo)
    show ?thesis
    proof (cases opn)
      case None': None
      with None tm Inr lo qc show ?thesis
        by (intro exI[of _ calls]) (simp add: run_veo_sync_def split: option.splits)
    next
      case (Some op0)
      obtain evs1 r1 where p: "poll b max_polls 0 op0 = (evs1, r1)"
        by (cases "poll b max_polls 0 op0") auto
      from quiet_poll[of b max_polls 0 op0] p have q1: "\<forall>e\<in>set evs1. quiet e" by auto
      show ?thesis
      proof (cases r1)
        case (Inl exc)
        with None tm Inr lo Some p qc q1 show ?thesis
          by (intro exI[of _ "calls @ evs1"]) (auto simp add: run_veo_sync_def)
      next
        case Inr': (Inr op1)
        from save_video_shape[of b job op1] obtain pre where
          pre: "\<forall>e\<in>set pre. quiet e"
          and sh: "(\<exists>exc. save_video b job op1 = (pre, job, Some exc)) \<or>
            (\<exists>x. save_video b job op1 =
              (pre @ [Set_video_path (out_path (temp b) (job_id job)),
                 Set_video_url (''/api/field-vision/video/'' @ job_id job),
                 Set_status ''ready''],
               job\<lparr>video_path := Some (out_path (temp b) (job_id job)),
                   video_url := Some (''/api/field-vision/video/'' @ job_id job),
                   status := ''ready''\<rparr>, x))" by blast
        have rs: "run_veo_sync b job =
            (calls @ evs1 @ fst (save_video b job op1), snd (save_video b job op1))"
          using None tm Inr lo Some p Inr'
          by (cases "save_video b job op1") (simp add: run_veo_sync_def)
        from sh rs pre qc q1 show ?thesis
          by (intro exI[of _ "calls @ evs1 @ pre"]) auto
      qed
    qed
  qed
qed

text \<open>The five ways a run of the background task can go.\<close>

lemma run_veo_job_shape:
  "\<exists>pre. (\<forall>e\<in>set pre. quiet e) \<and>
     (run_veo_job b job = (pre, job) \<or>
      (\<exists>exc. run_veo_job b job =
         (pre @ [Handler exc],
          job\<lparr>status := ''error'', error := Some exc, video_url := Some MOCK_VIDEO_URL\<rparr>)) \<or>
      run_veo_job b job =
        (pre @ [Set_video_url MOCK_VIDEO_URL, Set_status ''ready'', Set_job_notes billing_note],
         job\<lparr>video_url := Some MOCK_VIDEO_URL, status := ''ready'',
             job_notes := Some billing_note\<rparr>) \<or>
      run_veo_job b job =
         (pre @ [Set_video_path (out_path (temp b) (job_id job)),
                 Set_video_url (''/api/field-vision/video/'' @ job_id job),
                 Set_status ''ready''],
          job\<lparr>video_path := Some (out_path (temp b) (job_id job)),
              video_url := Some (''/api/field-vision/video/'' @ job_id job),
              status := ''ready''\<rparr>) \<or>
      (\<exists>exc. run_veo_job b job =
         (pre @ [Set_video_path (out_path (temp b) (job_id job)),
                 Set_video_url (''/api/field-vision/video/'' @ job_id job),
                 Set_status ''ready'', Handler exc],
          job\<lparr>video_path := Some (out_path (temp b) (job_id job)),
              video_url := Some MOCK_VIDEO_URL,
              status := ''error'', error := Some exc\<rparr>)))"
proof -
  from run_veo_sync_shape[of b job] obtain pre where pre: "\<forall>e\<in>set pre. quiet e"
    and sh: "(\<exists>exc. run_veo_sync b job = (pre, job, Some exc)) \<or>
      run_veo_sync b job =
        (pre @ [Set_video_url MOCK_VIDEO_URL, Set_status ''ready'', Set_job_notes billing_note],
         job\<lparr>video_url := Some MOCK_VIDEO_URL, status := ''ready'',
             job_notes := Some billing_note\<rparr>, None) \<or>
      (\<exists>x. run_veo_sync b job =
         (pre @ [Set_video_path (out_path (temp b) (job_id job)),
                 Set_video_url (''/api/field-vision/video/'' @ job_id job),
                 Set_status ''ready''],
          job\<lparr>video_path := Some (out_path (temp b) (job_id job)),
              video_url := Some (''/api/field-vision/video/'' @ job_id job),
              status := ''ready''\<rparr>, x))" by blast
  from sh show ?thesis
  proof (elim disjE exE)
    fix exc assume "run_veo_sync b job = (pre, job, Some exc)"
    with pre show ?thesis
      by (intro exI[of _ pre]) (simp add: run_veo_job_def split: option.splits)
  next
    assume "run_veo_sync b job =
        (pre @ [Set_video_url MOCK_VIDEO_URL, Set_status ''ready'', Set_job_notes billing_note],
         job\<lparr>video_url := Some MOCK_VIDEO_URL, status := ''ready'',
             job_notes := Some billing_note\<rparr>, None)"
    with pre show ?thesis by (intro exI[of _ pre]) (simp add: run_veo_job_def)
  next
    fix x assume "run_veo_sync b job =
         (pre @ [Set_video_path (out_path (temp b) (job_id job)),
                 Set_video_url (''/api/field-vision/video/'' @ job_id job),
                 Set_status ''ready''],
          job\<lparr>video_path := Some (out_path (temp b) (job_id job)),
              video_url := Some (''/api/field-vision/video/'' @ job_id job),
              status := ''ready''\<rparr>, x)"
    with pre show ?thesis
      by (intro exI[of _ pre]) (simp add: run_veo_job_def split: option.splits)
  qed
qed

lemma run_veo_job_replay:
  "snd (run_veo_job b job) = fold apply_event (fst (run_veo_job b job)) job"
  using run_veo_job_shape[of b job] by (elim exE conjE disjE) simp_all

lemma run_veo_job_safe:
  assumes "status job = ''generating''" "job_ok (temp b) job"
  shows "safe (temp b) job (fst (run_veo_job b job))"
proof -
  from run_veo_job_shape[of b job] obtain pre where pre: "\<forall>e\<in>set pre. quiet e"
    and "\<exists>tl. fst (run_veo_job b job) = pre @ tl \<and>
      (tl = [] \<or> (\<exists>exc. tl = [Handler exc]) \<or>
       tl = [Set_video_url MOCK_VIDEO_URL, Set_status ''ready'', Set_job_notes billing_note] \<or>
       tl = [Set_video_path (out_path (temp b) (job_id job)),
                 Set_video_url (''/api/field-vision/video/'' @ job_id job),
                 Set_status ''ready''] \<or>
       (\<exists>exc. tl = [Set_video_path (out_path (temp b) (job_id job)),
                 Set_video_url (''/api/field-vision/video/'' @ job_id job),
                 Set_status ''ready'', Handler exc]))"
    by (elim exE conjE disjE) auto
  then obtain tl where tl: "fst (run_veo_job b job) = pre @ tl"
    and c: "tl = [] \<or> (\<exists>exc. tl = [Handler exc]) \<or>
       tl = [Set_video_url MOCK_VIDEO_URL, Set_status ''ready'', Set_job_notes billing_note] \<or>
       tl = [Set_video_path (out_path (temp b) (job_id job)),
                 Set_video_url (''/api/field-vision/video/'' @ job_id job),
                 Set_status ''ready''] \<or>
       (\<exists>exc. tl = [Set_video_path (out_path (temp b) (job_id job)),
                 Set_video_url (''/api/field-vision/video/'' @ job_id job),
                 Set_status ''ready'', Handler exc])" by blast
  from c assms have "safe (temp b) job tl"
    by (elim disjE exE) (simp_all add: job_ok_def)
  with pre tl show ?thesis by (simp add: safe_quiet)
qed

section \<open>Worlds of a run\<close>

lemma get_client_jobs_upd:
  "get_client env (svc\<lparr>jobs := J\<rparr>) =
     (fst (get_client env svc), (snd (get_client env svc))\<lparr>jobs := J\<rparr>)"
  by (simp add: get_client_def split: option.splits sum.splits)

lemma get_client_jobs [simp]: "jobs (snd (get_client env svc)) = jobs svc"
  by (simp add: get_client_def split: option.splits sum.splits)

lemma get_client_None_iff:
  "fst (get_client env svc) = None \<longleftrightarrow>
     client svc = None \<and>
     (gemini_api_key env = None \<or> gemini_api_key env = Some [] \<or>
      (\<exists>k. gemini_api_key env = Some k \<and> isl (genai_Client env k)))"
  by (auto simp: get_client_def split: option.splits sum.splits)

lemma generate_video_cases:
  "(fst (get_client env (service w)) = None \<and>
    generate_video env uuid now a w =
      ((uuid, Some MOCK_VIDEO_URL),
       w\<lparr>service := (snd (get_client env (service w)))
            \<lparr>jobs := AList.update uuid (length (objs w)) (jobs (service w))\<rparr>,
         objs := objs w @ [(new_VeoJob uuid (Some a) now)
                             \<lparr>status := ''ready'', video_url := Some MOCK_VIDEO_URL\<rparr>],
         history := history w @ [(length (objs w), Set_status ''ready'')]\<rparr>)) \<or>
   (\<exists>c. fst (get_client env (service w)) = Some c \<and>
    generate_video env uuid now a w =
      ((uuid, None),
       w\<lparr>service := (snd (get_client env (service w)))
            \<lparr>jobs := AList.update uuid (length (objs w)) (jobs (service w))\<rparr>,
         objs := objs w @ [new_VeoJob uuid (Some a) now],
         tasks := tasks w @ [length (objs w)]\<rparr>))"
  by (cases "fst (get_client env (service w))")
     (simp_all add: generate_video_def get_client_jobs_upd Let_def)

lemma in_update:
  "p \<in> set (AList.update k v al) \<Longrightarrow> p = (k, v) \<or> p \<in> set al"
  by (induction al) (auto split: if_splits)

lemma in_update_distinct:
  "distinct (map fst al) \<Longrightarrow> p \<in> set (AList.update k v al) \<Longrightarrow>
   p = (k, v) \<or> (p \<in> set al \<and> fst p \<noteq> k)"
  by (induction al) (auto split: if_splits)

lemma terminal_simps [simp]: "terminal ''ready''" "terminal ''error''" "\<not> terminal ''generating''"
  by (simp_all add: terminal_def)

lemma world_ok_start: "world_ok (init_world\<lparr>temp_dir := t\<rparr>)"
  by (simp add: world_ok_def init_world_def)

lemma world_ok_submit:
  assumes "world_ok w"
  shows "world_ok (snd (generate_video env uuid now a w))"
proof -
  let ?n = "length (objs w)"
  let ?t = "temp_dir w"
  from assms have d: "distinct (tasks w @ map fst (running w))"
    and t: "\<forall>r\<in>set (tasks w). r < ?n \<and> status (objs w ! r) = ''generating''"
    and u: "\<forall>(r, es)\<in>set (running w). r < ?n \<and> safe ?t (objs w ! r) es"
    and o: "\<forall>r<?n. job_ok ?t (objs w ! r)"
    and k: "distinct (map fst (jobs (service w)))"
    and s: "\<forall>(jid, r)\<in>set (jobs (service w)). r < ?n \<and> job_id (objs w ! r) = jid"
    by (simp_all add: world_ok_def)
  have nt: "?n \<notin> set (tasks w)" using t by auto
  have nr: "?n \<notin> fst ` set (running w)" using u by force
  let ?w = "snd (generate_video env uuid now a w)"
  from generate_video_cases[of env w uuid now a]
  obtain job where w': "objs ?w = objs w @ [job]" "job_id job = uuid" "job_ok ?t job"
    "running ?w = running w" "temp_dir ?w = ?t"
    "jobs (service ?w) = AList.update uuid ?n (jobs (service w))"
    and c: "tasks ?w = tasks w \<or> (tasks ?w = tasks w @ [?n] \<and> status job = ''generating'')"
    by (elim disjE conjE exE) (simp_all add: new_VeoJob_def job_ok_def)
  have 1: "distinct (tasks ?w @ map fst (running ?w))"
  proof -
    from c show ?thesis
    proof (elim disjE conjE)
      assume "tasks ?w = tasks w"
      with d show ?thesis by (simp add: w')
    next
      assume "tasks ?w = tasks w @ [?n]"
      with d nt nr show ?thesis by (simp add: w')
    qed
  qed
  have 2: "\<forall>r\<in>set (tasks ?w). r < length (objs ?w) \<and> status (objs ?w ! r) = ''generating''"
    using c t by (auto simp: w' nth_append)
  have 3: "\<forall>(r, es)\<in>set (running ?w). r < length (objs ?w) \<and> safe (temp_dir ?w) (objs ?w ! r) es"
    using u by (auto simp: w' nth_append)
  have 4: "\<forall>r<length (objs ?w). job_ok (temp_dir ?w) (objs ?w ! r)"
    using o w'(3) by (auto simp: w' nth_append less_Suc_eq)
  have 5: "distinct (map fst (jobs (service ?w)))"
    using k by (simp add: w' distinct_update)
  have 6: "\<forall>(jid, r)\<in>set (jobs (service ?w)). r < length (objs ?w) \<and> job_id (objs ?w ! r) = jid"
  proof (clarify)
    fix jid r assume "(jid, r) \<in> set (jobs (service ?w))"
    then consider "(jid, r) = (uuid, ?n)" | "(jid, r) \<in> set (jobs (service w))"
      unfolding w' using in_update by fast
    then show "r < length (objs ?w) \<and> job_id (objs ?w ! r) = jid"
    proof cases
      case 1
      then show ?thesis by (simp add: w')
    next
      case 2
      with s show ?thesis by (auto simp: w' nth_append)
    qed
  qed
  from 1 2 3 4 5 6 show ?thesis unfolding world_ok_def by blast
qed

lemma analyze_service [simp]:
  "snd (snd (analyze_image_sync env p g mock svc)) = snd (get_client env svc)"
  by (cases "get_client env svc")
     (simp add: analyze_image_sync_def split: option.splits sum.splits)

lemma world_ok_analyze:
  assumes "world_ok w"
  shows "world_ok (w\<lparr>service := snd (get_client env (service w))\<rparr>)"
  using assms by (simp add: world_ok_def)

lemma world_ok_start_task:
  assumes "world_ok w" "r \<in> set (tasks w)" "temp b = temp_dir w"
  shows "world_ok (start_task b r w)"
proof -
  let ?n = "length (objs w)"
  from assms(1) have d: "distinct (tasks w @ map fst (running w))"
    and t: "\<forall>r\<in>set (tasks w). r < ?n \<and> status (objs w ! r) = ''generating''"
    and o: "\<forall>r<?n. job_ok (temp_dir w) (objs w ! r)"
    by (simp_all add: world_ok_def)
  from t assms(2) have rn: "r < ?n" and g: "status (objs w ! r) = ''generating''" by simp_all
  from o rn assms(3) have "job_ok (temp b) (objs w ! r)" by simp
  from run_veo_job_safe[OF g this] assms(3)
  have sf: "safe (temp_dir w) (objs w ! r) (fst (run_veo_job b (objs w ! r)))" by simp
  from d assms(2) have "distinct (remove1 r (tasks w) @ map fst (running w) @ [r])"
    by (auto simp: distinct_remove1)
  moreover have "set (remove1 r (tasks w)) \<subseteq> set (tasks w)" by (rule set_remove1_subset)
  ultimately show ?thesis using assms(1) rn sf
    unfolding world_ok_def start_task_def by auto
qed

lemma world_ok_advance:
  assumes "world_ok w"
  shows "world_ok (advance_task r w)"
proof (cases "map_of (running w) r")
  case None
  with assms show ?thesis by (simp add: advance_task_def)
next
  case (Some todo)
  show ?thesis
  proof (cases todo)
    case Nil
    with Some assms show ?thesis by (simp add: advance_task_def)
  next
    case (Cons e es)
    let ?n = "length (objs w)"
    let ?t = "temp_dir w"
    let ?w = "advance_task r w"
    from assms have d: "distinct (tasks w @ map fst (running w))"
      and t: "\<forall>r\<in>set (tasks w). r < ?n \<and> status (objs w ! r) = ''generating''"
      and u: "\<forall>(r, es)\<in>set (running w). r < ?n \<and> safe ?t (objs w ! r) es"
      and o: "\<forall>r<?n. job_ok ?t (objs w ! r)"
      and k: "distinct (map fst (jobs (service w)))"
      and s: "\<forall>(jid, r)\<in>set (jobs (service w)). r < ?n \<and> job_id (objs w ! r) = jid"
      by (simp_all add: world_ok_def)
    from Some Cons have m: "(r, e # es) \<in> set (running w)" by (simp add: map_of_SomeD)
    with u have rn: "r < ?n" and sf: "safe ?t (apply_event e (objs w ! r)) es" by auto
    from m have rk: "r \<in> set (map fst (running w))" by force
    have w': "objs ?w = (objs w)[r := apply_event e (objs w ! r)]"
      "running ?w = AList.update r es (running w)" "tasks ?w = tasks w"
      "temp_dir ?w = ?t" "service ?w = service w"
      using Some Cons by (simp_all add: advance_task_def)
    from d have dr: "distinct (map fst (running w))" by simp
    have keys: "map fst (AList.update r es (running w)) = map fst (running w)"
      using rk by (simp add: update_keys)
    have keys': "fst ` set (AList.update r es (running w)) = fst ` set (running w)"
      using arg_cong[OF keys, of set] by simp
    have 1: "distinct (tasks ?w @ map fst (running ?w))" using d by (simp add: keys keys' w')
    have 2: "\<forall>r\<in>set (tasks ?w). r < length (objs ?w) \<and> status (objs ?w ! r) = ''generating''"
    proof -
      from d have "set (tasks w) \<inter> set (map fst (running w)) = {}" by simp
      with rk have "r \<notin> set (tasks w)" by blast
      with t rn show ?thesis by (auto simp: w' nth_list_update)
    qed
    have 3: "\<forall>(r', es')\<in>set (running ?w).
        r' < length (objs ?w) \<and> safe (temp_dir ?w) (objs ?w ! r') es'"
    proof (clarify)
      fix r' es' assume "(r', es') \<in> set (running ?w)"
      with in_update_distinct[OF dr, of "(r', es')" r es]
      consider "(r', es') = (r, es)" | "(r', es') \<in> set (running w)" "r' \<noteq> r"
        by (auto simp: w')
      then show "r' < length (objs ?w) \<and> safe (temp_dir ?w) (objs ?w ! r') es'"
      proof cases
        case 1
        with rn sf show ?thesis by (simp add: w')
      next
        case 2
        with u show ?thesis by (auto simp: w')
      qed
    qed
    have 4: "\<forall>r'<length (objs ?w). job_ok (temp_dir ?w) (objs ?w ! r')"
      using o rn safe_job_ok[OF sf] by (auto simp: w' nth_list_update)
    have 5: "distinct (map fst (jobs (service ?w)))" using k by (simp add: w')
    have 6: "\<forall>(jid, r')\<in>set (jobs (service ?w)).
        r' < length (objs ?w) \<and> job_id (objs ?w ! r') = jid"
      using s rn by (auto simp: w' nth_list_update)
    from 1 2 3 4 5 6 show ?thesis unfolding world_ok_def by blast
  qed
qed

lemma remove_expired_subset:
  "remove_expired rm heap ids items fs = Inr (items', fs') \<Longrightarrow> distinct (map fst items) \<Longrightarrow>
   set items' \<subseteq> set items \<and> distinct (map fst items')"
proof (induction ids arbitrary: items fs)
  case Nil
  then show ?case by simp
next
  case (Cons jid rest)
  from Cons.prems(1) obtain r where r: "map_of items jid = Some r"
    by (cases "map_of items jid") auto
  let ?fs = "case video_path (heap ! r) of None \<Rightarrow> fs
             | Some p \<Rightarrow> if p \<noteq> [] \<and> p \<in> fs
                 then (case os_remove rm p fs of Inr fs' \<Rightarrow> fs' | Inl exc \<Rightarrow> fs) else fs"
  from Cons.prems(1) r have
    "remove_expired rm heap rest (AList.delete jid items) ?fs = Inr (items', fs')" by simp
  from Cons.IH[OF this] Cons.prems(2)
  have "set items' \<subseteq> set (AList.delete jid items)" "distinct (map fst items')"
    by (simp_all add: distinct_delete)
  then show ?case by (auto simp: AList.delete_eq)
qed

lemma world_ok_sweep:
  assumes "world_ok w" "cleanup_old_jobs rm now max_age_seconds w fs = Inr (w', fs')"
  shows "world_ok w'"
proof -
  from assms(2) obtain items where
    re: "remove_expired rm (objs w) (expired now max_age_seconds (objs w) (jobs (service w)))
           (jobs (service w)) fs = Inr (items, fs')"
    and w': "w' = w\<lparr>service := (service w)\<lparr>jobs := items\<rparr>\<rparr>"
    by (auto simp: cleanup_old_jobs_def split: sum.splits)
  from assms(1) have k: "distinct (map fst (jobs (service w)))" by (simp add: world_ok_def)
  from remove_expired_subset[OF re k]
  have "set items \<subseteq> set (jobs (service w))" "distinct (map fst items)" by simp_all
  with assms(1) show ?thesis unfolding w' world_ok_def by auto
qed

lemma world_ok_step: "step w w' \<Longrightarrow> world_ok w \<Longrightarrow> world_ok w'"
  by (induction rule: step.induct)
     (simp_all add: world_ok_submit world_ok_analyze world_ok_start_task world_ok_advance
        world_ok_sweep)

lemma reachable_ok: "reachable w \<Longrightarrow> world_ok w"
  by (induction rule: reachable.induct) (simp_all add: world_ok_start world_ok_step)

lemma reachable_store_ok:
  assumes "reachable w"
  shows "store_ok (temp_dir w) (objs w) (jobs (service w))"
proof -
  from reachable_ok[OF assms] have
    o: "\<forall>r<length (objs w). job_ok (temp_dir w) (objs w ! r)"
    and k: "distinct (map fst (jobs (service w)))"
    and s: "\<forall>(jid, r)\<in>set (jobs (service w)). r < length (objs w) \<and> job_id (objs w ! r) = jid"
    by (simp_all add: world_ok_def)
  show ?thesis unfolding store_ok_def
  proof (intro conjI ballI)
    show "distinct (map fst (jobs (service w)))" by (rule k)
  next
    fix p assume p: "p \<in> set (jobs (service w))"
    obtain jid r where pr: "p = (jid, r)" by (cases p)
    with s p have "r < length (objs w)" "job_id (objs w ! r) = jid" by auto
    with o pr show "case p of (jid, r) \<Rightarrow> r < length (objs w) \<and> job_id (objs w ! r) = jid \<and>
        (video_path (objs w ! r) = None \<or>
         video_path (objs w ! r) = Some (out_path (temp_dir w) jid))"
      by (auto simp: job_ok_def)
  qed
qed

section \<open>The example runs\<close>

lemma run_quota: "run_veo_job quota_backend job =
   (map Generate_videos veo_models @
      [Handler ''No Veo model available or all failed. Last error: 429 RESOURCE_EXHAUSTED''],
    job\<lparr>status := ''error'',
        error := Some ''No Veo model available or all failed. Last error: 429 RESOURCE_EXHAUSTED'',
        video_url := Some MOCK_VIDEO_URL\<rparr>)"
  by (simp add: run_veo_job_def run_veo_sync_def quota_backend_def veo_models_def attempt_def
      any_stdout_def or_empty_def str_opt_def lower_def lower_char_def)

lemma run_early_billing: "run_veo_job early_billing_backend job =
   (map Generate_videos veo_models @
      [Handler (''No Veo model available or all failed. Last error: '' @
                ''404 NOT_FOUND: model veo-2.0-generate-001'')],
    job\<lparr>status := ''error'',
        error := Some (''No Veo model available or all failed. Last error: '' @
                       ''404 NOT_FOUND: model veo-2.0-generate-001''),
        video_url := Some MOCK_VIDEO_URL\<rparr>)"
  by (simp add: run_veo_job_def run_veo_sync_def early_billing_backend_def veo_models_def
      attempt_def any_stdout_def or_empty_def str_opt_def lower_def lower_char_def)

lemma poll_good: "poll good_backend max_polls 0 not_started =
   ([Sleep 10, Operations_get, Sleep 10, Operations_get], Inr finished)"
  by (simp add: max_polls_def eval_nat_numeral good_backend_def not_started_def finished_def
      any_stdout_def)

lemma run_good: "run_veo_job good_backend job =
   ([Generate_videos ''veo-3.1-generate-preview'', Sleep 10, Operations_get, Sleep 10,
     Operations_get, Files_download 7, Video_save 7 (out_path None (job_id job)),
     Set_video_path (out_path None (job_id job)),
     Set_video_url (''/api/field-vision/video/'' @ job_id job),
     Set_status ''ready''],
    job\<lparr>video_path := Some (out_path None (job_id job)),
        video_url := Some (''/api/field-vision/video/'' @ job_id job),
        status := ''ready''\<rparr>)"
proof -
  have "try_models good_backend veo_models None =
      ([Generate_videos ''veo-3.1-generate-preview''], Inr (None, Some not_started))"
    by (simp add: good_backend_def veo_models_def attempt_def any_stdout_def)
  moreover have "save_video good_backend job finished =
     ([Files_download 7, Video_save 7 (out_path None (job_id job)),
       Set_video_path (out_path None (job_id job)),
       Set_video_url (''/api/field-vision/video/'' @ job_id job), Set_status ''ready''],
      job\<lparr>video_path := Some (out_path None (job_id job)),
        video_url := Some (''/api/field-vision/video/'' @ job_id job),
        status := ''ready''\<rparr>, None)"
    by (simp add: save_video_def good_backend_def finished_def any_stdout_def)
  moreover have "prelude good_backend = None" by (simp add: good_backend_def)
  ultimately show ?thesis using poll_good
    by (simp add: run_veo_job_def run_veo_sync_def)
qed

lemma try_accent: "try_models accent_backend [''A'', ''B'', ''C''] None =
   ([Generate_videos ''A''], Inl unicode_error)"
  by (simp add: accent_backend_def attempt_def ascii_stdout_def attempting_text_def
      failed_text_def accent_message_def)

lemma run_stuck: "run_veo_job stuck_backend demo_job =
   ([Generate_videos ''veo-3.1-generate-preview'', Handler unicode_error],
    demo_job\<lparr>status := ''error'', error := Some unicode_error,
        video_url := Some MOCK_VIDEO_URL\<rparr>)"
proof -
  have "try_models stuck_backend veo_models None =
      ([Generate_videos ''veo-3.1-generate-preview''], Inr (None, Some not_started))"
    by (simp add: stuck_backend_def veo_models_def attempt_def ascii_stdout_def
        attempting_text_def started_text_def)
  moreover have "poll stuck_backend max_polls 0 not_started = ([], Inl unicode_error)"
    by (simp add: max_polls_def eval_nat_numeral stuck_backend_def not_started_def
        ascii_stdout_def waiting_text_def)
  moreover have "stdout stuck_backend (error_text ''job-1'' unicode_error) = None"
    by (simp add: stuck_backend_def ascii_stdout_def error_text_def unicode_error_def)
  moreover have "prelude stuck_backend = None" by (simp add: stuck_backend_def)
  ultimately show ?thesis
    by (simp add: run_veo_job_def run_veo_sync_def demo_job_def new_VeoJob_def)
qed

lemma run_refused: "run_veo_job refused_backend demo_job =
   ([Generate_videos ''veo-3.1-generate-preview'', Files_download 7], demo_job)"
proof -
  have "try_models refused_backend veo_models None =
      ([Generate_videos ''veo-3.1-generate-preview''], Inr (None, Some finished))"
    by (simp add: refused_backend_def veo_models_def attempt_def ascii_stdout_def
        attempting_text_def started_text_def)
  moreover have "poll refused_backend max_polls 0 finished = ([], Inr finished)"
    by (simp add: max_polls_def eval_nat_numeral finished_def)
  moreover have "save_video refused_backend demo_job finished =
      ([Files_download 7], demo_job, Some refused_message)"
    by (simp add: save_video_def refused_backend_def finished_def)
  moreover have "stdout refused_backend (error_text ''job-1'' refused_message) =
      Some unicode_error"
    by (simp add: refused_backend_def ascii_stdout_def error_text_def refused_message_def)
  moreover have "prelude refused_backend = None" by (simp add: refused_backend_def)
  ultimately show ?thesis
    by (simp add: run_veo_job_def run_veo_sync_def demo_job_def new_VeoJob_def)
qed

lemma run_umlaut: "run_veo_job umlaut_backend demo_job =
   ([Generate_videos ''veo-3.1-generate-preview'', Files_download 7,
     Video_save 7 (out_path umlaut_temp ''job-1''),
     Set_video_path (out_path umlaut_temp ''job-1''),
     Set_video_url ''/api/field-vision/video/job-1'',
     Set_status ''ready'', Handler unicode_error],
    demo_job\<lparr>video_path := Some (out_path umlaut_temp ''job-1''),
        video_url := Some MOCK_VIDEO_URL,
        status := ''error'', error := Some unicode_error\<rparr>)"
proof -
  have "try_models umlaut_backend veo_models None =
      ([Generate_videos ''veo-3.1-generate-preview''], Inr (None, Some finished))"
    by (simp add: umlaut_backend_def veo_models_def attempt_def ascii_stdout_def
        attempting_text_def started_text_def)
  moreover have "poll umlaut_backend max_polls 0 finished = ([], Inr finished)"
    by (simp add: max_polls_def eval_nat_numeral finished_def)
  moreover have "stdout umlaut_backend (saved_text (out_path umlaut_temp ''job-1'')) =
      Some unicode_error"
    by (simp add: umlaut_backend_def ascii_stdout_def saved_text_def out_path_def
        VIDEO_DIR_def umlaut_temp_def)
  then have "save_video umlaut_backend demo_job finished =
      ([Files_download 7, Video_save 7 (out_path umlaut_temp ''job-1''),
        Set_video_path (out_path umlaut_temp ''job-1''),
        Set_video_url ''/api/field-vision/video/job-1'', Set_status ''ready''],
       demo_job\<lparr>video_path := Some (out_path umlaut_temp ''job-1''),
         video_url := Some ''/api/field-vision/video/job-1'', status := ''ready''\<rparr>,
       Some unicode_error)"
    by (simp add: save_video_def umlaut_backend_def finished_def demo_job_def new_VeoJob_def)
  moreover have "stdout umlaut_backend (error_text ''job-1'' unicode_error) = None"
    by (simp add: umlaut_backend_def ascii_stdout_def error_text_def unicode_error_def)
  moreover have "prelude umlaut_backend = None" by (simp add: umlaut_backend_def)
  ultimately show ?thesis
    by (simp add: run_veo_job_def run_veo_sync_def demo_job_def new_VeoJob_def)
qed

section \<open>The example worlds\<close>

lemma advance_prefix:
  "map_of (running w) r = Some (es @ rest) \<Longrightarrow> r < length (objs w) \<Longrightarrow>
   (advance_task r ^^ length es) w =
     w\<lparr>objs := (objs w)[r := fold apply_event es (objs w ! r)],
       running := AList.update r rest (running w),
       history := history w @ map (Pair r) es\<rparr>"
proof (induction es arbitrary: w)
  case Nil
  then show ?case by (simp add: update_triv)
next
  case (Cons e es)
  let ?w = "advance_task r w"
  from Cons.prems have w1: "?w = w\<lparr>objs := (objs w)[r := apply_event e (objs w ! r)],
      running := AList.update r (es @ rest) (running w), history := history w @ [(r, e)]\<rparr>"
    by (simp add: advance_task_def)
  then have "map_of (running ?w) r = Some (es @ rest)" "r < length (objs ?w)"
    using Cons.prems(2) by (simp_all add: update_conv')
  from Cons.IH[OF this] have "(advance_task r ^^ length es) ?w =
     ?w\<lparr>objs := (objs ?w)[r := fold apply_event es (objs ?w ! r)],
       running := AList.update r rest (running ?w),
       history := history ?w @ map (Pair r) es\<rparr>" .
  also have "\<dots> = w\<lparr>objs := (objs w)[r := fold apply_event (e # es) (objs w ! r)],
       running := AList.update r rest (running w),
       history := history w @ map (Pair r) (e # es)\<rparr>"
    using Cons.prems(2) by (simp add: w1)
  finally show ?case by (simp add: funpow_swap1)
qed

lemma reachable_advance: "reachable w \<Longrightarrow> reachable ((advance_task r ^^ n) w)"
  by (induction n) (auto intro: reachable.later step.advance)

lemma world_submitted_eq:
  "world_submitted =
     \<lparr>service = \<lparr>client = Some (Client ''key''), jobs = [(''job-1'', 0)]\<rparr>,
      objs = [demo_job], tasks = [0], running = [], history = [], temp_dir = None\<rparr>"
  by (simp add: world_submitted_def generate_video_def get_client_def env_key_def
      init_world_def demo_job_def)

lemma reachable_init: "reachable init_world"
  using reachable.start[of None] by (simp add: init_world_def)

lemma reachable_submitted: "reachable world_submitted"
  unfolding world_submitted_def by (rule reachable.later[OF reachable_init step.submit])

lemma world_failed_eq:
  "world_failed =
     \<lparr>service = \<lparr>client = Some (Client ''key''), jobs = [(''job-1'', 0)]\<rparr>,
      objs = [demo_job\<lparr>status := ''error'',
          error := Some ''No Veo model available or all failed. Last error: 429 RESOURCE_EXHAUSTED'',
          video_url := Some MOCK_VIDEO_URL\<rparr>],
      tasks = [], running = [(0, [])],
      history = map (Pair 0) (map Generate_videos veo_models @
        [Handler ''No Veo model available or all failed. Last error: 429 RESOURCE_EXHAUSTED'']),
      temp_dir = None\<rparr>"
proof -
  let ?es = "map Generate_videos veo_models @
      [Handler ''No Veo model available or all failed. Last error: 429 RESOURCE_EXHAUSTED'']"
  let ?w = "start_task quota_backend 0 world_submitted"
  have s: "?w = \<lparr>service = \<lparr>client = Some (Client ''key''), jobs = [(''job-1'', 0)]\<rparr>,
      objs = [demo_job], tasks = [], running = [(0, ?es)], history = [], temp_dir = None\<rparr>"
    by (simp add: start_task_def world_submitted_eq run_quota)
  have l: "length ?es = 4" by (simp add: veo_models_def)
  have "map_of (running ?w) 0 = Some (?es @ [])" "0 < length (objs ?w)" by (simp_all add: s)
  from advance_prefix[OF this] show ?thesis
    unfolding world_failed_def l by (simp add: s veo_models_def)
qed

lemma reachable_failed: "reachable world_failed"
  unfolding world_failed_def
  by (intro reachable_advance reachable.later[OF reachable_submitted] step.start)
     (simp_all add: world_submitted_eq quota_backend_def)

lemma started_good:
  "start_task good_backend 0 world_submitted =
     \<lparr>service = \<lparr>client = Some (Client ''key''), jobs = [(''job-1'', 0)]\<rparr>,
      objs = [demo_job], tasks = [],
      running = [(0, [Generate_videos ''veo-3.1-generate-preview'', Sleep 10, Operations_get,
        Sleep 10, Operations_get, Files_download 7, Video_save 7 (out_path None ''job-1''),
        Set_video_path (out_path None ''job-1'')] @
        [Set_video_url ''/api/field-vision/video/job-1'', Set_status ''ready''])],
      history = [], temp_dir = None\<rparr>"
  by (simp add: start_task_def world_submitted_eq run_good) (simp add: demo_job_def new_VeoJob_def)

lemma world_path_set_eq:
  "objs world_path_set = [demo_job\<lparr>video_path := Some (out_path None ''job-1'')\<rparr>] \<and>
   jobs (service world_path_set) = [(''job-1'', 0)]"
proof -
  let ?es = "[Generate_videos ''veo-3.1-generate-preview'', Sleep 10, Operations_get,
        Sleep 10, Operations_get, Files_download 7, Video_save 7 (out_path None ''job-1''),
        Set_video_path (out_path None ''job-1'')]"
  let ?w = "start_task good_backend 0 world_submitted"
  have l: "length ?es = 8" by simp
  have "map_of (running ?w) 0 =
      Some (?es @ [Set_video_url ''/api/field-vision/video/job-1'', Set_status ''ready''])"
    "0 < length (objs ?w)" by (simp_all add: started_good)
  from advance_prefix[OF this] show ?thesis
    unfolding world_path_set_def l by (simp add: started_good)
qed

lemma reachable_path_set: "reachable world_path_set"
  unfolding world_path_set_def
  by (intro reachable_advance reachable.later[OF reachable_submitted] step.start)
     (simp_all add: world_submitted_eq good_backend_def)

lemma world_done_eq:
  "objs world_done = [demo_job\<lparr>video_path := Some (out_path None ''job-1''),
       video_url := Some ''/api/field-vision/video/job-1'', status := ''ready''\<rparr>] \<and>
   jobs (service world_done) = [(''job-1'', 0)] \<and> temp_dir world_done = None"
proof -
  let ?es = "[Generate_videos ''veo-3.1-generate-preview'', Sleep 10, Operations_get,
        Sleep 10, Operations_get, Files_download 7, Video_save 7 (out_path None ''job-1''),
        Set_video_path (out_path None ''job-1''),
        Set_video_url ''/api/field-vision/video/job-1'', Set_status ''ready'']"
  let ?w = "start_task good_backend 0 world_submitted"
  have l: "length ?es = 10" by simp
  have "map_of (running ?w) 0 = Some (?es @ [])"
    "0 < length (objs ?w)" by (simp_all add: started_good)
  from advance_prefix[OF this] show ?thesis
    unfolding world_done_def l by (simp add: started_good)
qed

lemma reachable_done: "reachable world_done"
  unfolding world_done_def
  by (intro reachable_advance reachable.later[OF reachable_submitted] step.start)
     (simp_all add: world_submitted_eq good_backend_def)

lemma world_refused_eq:
  "objs world_refused = [demo_job] \<and> jobs (service world_refused) = [(''job-1'', 0)] \<and>
   tasks world_refused = [] \<and> running world_refused = [(0, [])]"
proof -
  let ?es = "[Generate_videos ''veo-3.1-generate-preview'', Files_download 7]"
  let ?w = "start_task refused_backend 0 world_submitted"
  have s: "?w = \<lparr>service = \<lparr>client = Some (Client ''key''), jobs = [(''job-1'', 0)]\<rparr>,
      objs = [demo_job], tasks = [], running = [(0, ?es)], history = [], temp_dir = None\<rparr>"
    by (simp add: start_task_def world_submitted_eq run_refused)
  have l: "length ?es = 2" by simp
  have "map_of (running ?w) 0 = Some (?es @ [])" "0 < length (objs ?w)" by (simp_all add: s)
  from advance_prefix[OF this] show ?thesis
    unfolding world_refused_def l by (simp add: s)
qed

lemma reachable_refused: "reachable world_refused"
  unfolding world_refused_def
  by (intro reachable_advance reachable.later[OF reachable_submitted] step.start)
     (simp_all add: world_submitted_eq refused_backend_def)

lemma umlaut_submitted:
  "snd (generate_video env_key ''job-1'' 0 MOCK_ANALYTICS (init_world\<lparr>temp_dir := umlaut_temp\<rparr>)) =
     \<lparr>service = \<lparr>client = Some (Client ''key''), jobs = [(''job-1'', 0)]\<rparr>,
      objs = [demo_job], tasks = [0], running = [], history = [], temp_dir = umlaut_temp\<rparr>"
  by (simp add: generate_video_def get_client_def env_key_def init_world_def demo_job_def)

lemma umlaut_started:
  "start_task umlaut_backend 0
     (snd (generate_video env_key ''job-1'' 0 MOCK_ANALYTICS
             (init_world\<lparr>temp_dir := umlaut_temp\<rparr>))) =
     \<lparr>service = \<lparr>client = Some (Client ''key''), jobs = [(''job-1'', 0)]\<rparr>,
      objs = [demo_job], tasks = [],
      running = [(0, [Generate_videos ''veo-3.1-generate-preview'', Files_download 7,
        Video_save 7 (out_path umlaut_temp ''job-1''),
        Set_video_path (out_path umlaut_temp ''job-1''),
        Set_video_url ''/api/field-vision/video/job-1'',
        Set_status ''ready''] @ [Handler unicode_error])],
      history = [], temp_dir = umlaut_temp\<rparr>"
  by (simp add: start_task_def umlaut_submitted run_umlaut)

lemma world_umlaut_ready_eq:
  "world_umlaut_ready =
     \<lparr>service = \<lparr>client = Some (Client ''key''), jobs = [(''job-1'', 0)]\<rparr>,
      objs = [demo_job\<lparr>video_path := Some (out_path umlaut_temp ''job-1''),
         video_url := Some ''/api/field-vision/video/job-1'', status := ''ready''\<rparr>],
      tasks = [], running = [(0, [Handler unicode_error])],
      history = map (Pair 0) [Generate_videos ''veo-3.1-generate-preview'', Files_download 7,
        Video_save 7 (out_path umlaut_temp ''job-1''),
        Set_video_path (out_path umlaut_temp ''job-1''),
        Set_video_url ''/api/field-vision/video/job-1'',
        Set_status ''ready''],
      temp_dir = umlaut_temp\<rparr>"
proof -
  let ?es = "[Generate_videos ''veo-3.1-generate-preview'', Files_download 7,
        Video_save 7 (out_path umlaut_temp ''job-1''),
        Set_video_path (out_path umlaut_temp ''job-1''),
        Set_video_url ''/api/field-vision/video/job-1'',
        Set_status ''ready'']"
  let ?w = "start_task umlaut_backend 0
     (snd (generate_video env_key ''job-1'' 0 MOCK_ANALYTICS
             (init_world\<lparr>temp_dir := umlaut_temp\<rparr>)))"
  have l: "length ?es = 6" by simp
  have "map_of (running ?w) 0 = Some (?es @ [Handler unicode_error])"
    "0 < length (objs ?w)" by (simp_all add: umlaut_started)
  from advance_prefix[OF this] show ?thesis
    unfolding world_umlaut_ready_def l by (simp add: umlaut_started)
qed

lemma reachable_umlaut_ready: "reachable world_umlaut_ready"
proof -
  let ?w = "snd (generate_video env_key ''job-1'' 0 MOCK_ANALYTICS
             (init_world\<lparr>temp_dir := umlaut_temp\<rparr>))"
  have "reachable ?w" by (rule reachable.later[OF reachable.start step.submit])
  moreover have "step ?w (start_task umlaut_backend 0 ?w)"
    by (rule step.start) (simp_all add: umlaut_submitted umlaut_backend_def)
  ultimately have "reachable (start_task umlaut_backend 0 ?w)" by (rule reachable.later)
  then show ?thesis unfolding world_umlaut_ready_def by (rule reachable_advance)
qed

lemma world_umlaut_error_eq:
  "objs world_umlaut_error =
     [demo_job\<lparr>video_path := Some (out_path umlaut_temp ''job-1''),
         video_url := Some MOCK_VIDEO_URL, status := ''error'',
         error := Some unicode_error\<rparr>] \<and>
   history world_umlaut_error =
     map (Pair 0) [Generate_videos ''veo-3.1-generate-preview'', Files_download 7,
        Video_save 7 (out_path umlaut_temp ''job-1''),
        Set_video_path (out_path umlaut_temp ''job-1''),
        Set_video_url ''/api/field-vision/video/job-1'',
        Set_status ''ready'', Handler unicode_error]"
  by (simp add: world_umlaut_error_def world_umlaut_ready_eq advance_task_def)

section \<open>The janitor\<close>

lemma map_of_filter_val:
  "distinct (map fst al) \<Longrightarrow>
   map_of (filter (\<lambda>(k, v). P v) al) k =
     (case map_of al k of None \<Rightarrow> None | Some v \<Rightarrow> if P v then Some v else None)"
proof (induction al)
  case Nil
  then show ?case by simp
next
  case (Cons kv al)
  obtain k' v' where kv: "kv = (k', v')" by (cases kv)
  show ?case
  proof (cases "k = k'")
    case True
    with Cons.prems kv have "map_of al k = None" by (simp add: map_of_eq_None_iff)
    with Cons True kv show ?thesis by simp
  next
    case False
    with Cons kv show ?thesis by simp
  qed
qed

lemma map_of_unique:
  "distinct (map fst al) \<Longrightarrow> (k, v) \<in> set al \<Longrightarrow> (k, v') \<in> set al \<Longrightarrow> v = v'"
  by (metis map_of_is_SomeI option.inject)

lemma remove_expired_result:
  assumes "distinct (map fst items)" "distinct ids" "set ids \<subseteq> fst ` set items"
    and "\<forall>(jid, r)\<in>set items. video_path (heap ! r) \<noteq> Some []"
  shows "remove_expired rm heap ids items fs =
     Inr (filter (\<lambda>(jid, r). jid \<notin> set ids) items,
          fs - {p. rm p = None \<and>
                   (\<exists>(jid, r)\<in>set items. jid \<in> set ids \<and> video_path (heap ! r) = Some p)})"
  using assms
proof (induction ids arbitrary: items fs)
  case Nil
  then show ?case by (simp add: case_prod_beta)
next
  case (Cons jid rest)
  from Cons.prems(3) obtain r where r: "(jid, r) \<in> set items" by auto
  with Cons.prems(1) have m: "map_of items jid = Some r" by simp
  let ?items1 = "AList.delete jid items"
  let ?A = "{p. rm p = None \<and> video_path (heap ! r) = Some p}"
  let ?fs1 = "case video_path (heap ! r) of None \<Rightarrow> fs
             | Some p \<Rightarrow> if p \<noteq> [] \<and> p \<in> fs
                 then (case os_remove rm p fs of Inr fs' \<Rightarrow> fs' | Inl exc \<Rightarrow> fs) else fs"
  have ne: "video_path (heap ! r) \<noteq> Some []" using Cons.prems(4) r by auto
  have fs1: "?fs1 = fs - ?A"
  proof (cases "video_path (heap ! r)")
    case None
    then show ?thesis by simp
  next
    case (Some p)
    with ne have "p \<noteq> []" by auto
    with Some show ?thesis by (cases "rm p") (auto simp: os_remove_def)
  qed
  have d1: "distinct (map fst ?items1)" using Cons.prems(1) by (rule distinct_delete)
  have d2: "distinct rest" and nj: "jid \<notin> set rest" using Cons.prems(2) by simp_all
  have s1: "set ?items1 = {p \<in> set items. fst p \<noteq> jid}"
    by (auto simp: AList.delete_eq)
  have sub: "set rest \<subseteq> fst ` set ?items1"
  proof
    fix k assume k: "k \<in> set rest"
    with Cons.prems(3) obtain v where "(k, v) \<in> set items" by auto
    moreover from k nj have "k \<noteq> jid" by auto
    ultimately have "(k, v) \<in> set ?items1" by (simp add: s1)
    then show "k \<in> fst ` set ?items1" by force
  qed
  have p4: "\<forall>(jid, r)\<in>set ?items1. video_path (heap ! r) \<noteq> Some []"
    using Cons.prems(4) by (auto simp: s1)
  have step: "remove_expired rm heap (jid # rest) items fs =
      remove_expired rm heap rest ?items1 ?fs1"
    using m by simp
  have f: "filter (\<lambda>(k, r). k \<notin> set rest) ?items1 =
           filter (\<lambda>(k, r). k \<notin> set (jid # rest)) items"
    by (auto simp: AList.delete_eq intro: filter_cong)
  let ?B1 = "{p. rm p = None \<and>
       (\<exists>(k, r')\<in>set ?items1. k \<in> set rest \<and> video_path (heap ! r') = Some p)}"
  let ?B = "{p. rm p = None \<and>
       (\<exists>(k, r')\<in>set items. k \<in> set (jid # rest) \<and> video_path (heap ! r') = Some p)}"
  have "?B = ?A \<union> ?B1"
  proof (intro set_eqI iffI)
    fix p assume "p \<in> ?B"
    then obtain k r' where kr: "(k, r') \<in> set items" "k \<in> set (jid # rest)"
      "video_path (heap ! r') = Some p" and rp: "rm p = None" by auto
    show "p \<in> ?A \<union> ?B1"
    proof (cases "k = jid")
      case True
      with kr(1) r Cons.prems(1) have "r' = r" using map_of_unique by fast
      with kr(3) rp show ?thesis by simp
    next
      case False
      with kr have "(k, r') \<in> set ?items1" "k \<in> set rest" by (simp_all add: s1)
      with kr(3) rp show ?thesis by auto
    qed
  next
    fix p assume "p \<in> ?A \<union> ?B1"
    then show "p \<in> ?B" using r by (auto simp: s1)
  qed
  then have "?fs1 - ?B1 = fs - ?B" unfolding fs1 by blast
  with Cons.IH[OF d1 d2 sub p4, of ?fs1] step f show ?case by simp
qed

lemma expired_ids:
  "distinct (map fst items) \<Longrightarrow>
   distinct (expired now m heap items) \<and> set (expired now m heap items) \<subseteq> fst ` set items \<and>
   (\<forall>(jid, r)\<in>set items. jid \<in> set (expired now m heap items) \<longleftrightarrow> is_expired now m (heap ! r))"
proof (intro conjI)
  assume d: "distinct (map fst items)"
  show "distinct (expired now m heap items)"
    unfolding expired_def using d by (rule distinct_map_filter)
  show "set (expired now m heap items) \<subseteq> fst ` set items"
    by (auto simp: expired_def)
  show "\<forall>(jid, r)\<in>set items. jid \<in> set (expired now m heap items) \<longleftrightarrow> is_expired now m (heap ! r)"
  proof (clarify, rule iffI)
    fix jid r assume i: "(jid, r) \<in> set items" "jid \<in> set (expired now m heap items)"
    then obtain r' where "(jid, r') \<in> set items" "is_expired now m (heap ! r')"
      by (auto simp: expired_def)
    with i(1) d show "is_expired now m (heap ! r)" using map_of_unique by fast
  next
    fix jid r assume "(jid, r) \<in> set items" "is_expired now m (heap ! r)"
    then show "jid \<in> set (expired now m heap items)" by (force simp: expired_def)
  qed
qed

lemma out_path_inj: "out_path t a = out_path t b \<Longrightarrow> a = b"
  by (simp add: out_path_def)

lemma out_path_not_empty: "out_path t x \<noteq> []"
  by (simp add: out_path_def)

lemma cleanup_result:
  assumes "store_ok t (objs w) (jobs (service w))"
  shows "cleanup_old_jobs rm now m w fs =
     Inr (w\<lparr>service := (service w)
              \<lparr>jobs := filter (\<lambda>(jid, r). \<not> is_expired now m (objs w ! r)) (jobs (service w))\<rparr>\<rparr>,
          fs - {p. rm p = None \<and>
                   (\<exists>(jid, r)\<in>set (jobs (service w)).
                     is_expired now m (objs w ! r) \<and> video_path (objs w ! r) = Some p)})"
proof -
  let ?items = "jobs (service w)"
  let ?ids = "expired now m (objs w) ?items"
  from assms have d: "distinct (map fst ?items)" by (simp add: store_ok_def)
  from assms out_path_not_empty
  have p4: "\<forall>(jid, r)\<in>set ?items. video_path (objs w ! r) \<noteq> Some []"
    by (fastforce simp: store_ok_def)
  from expired_ids[OF d, of now m "objs w"] have e: "distinct ?ids" "set ?ids \<subseteq> fst ` set ?items"
    "\<forall>(jid, r)\<in>set ?items. jid \<in> set ?ids \<longleftrightarrow> is_expired now m (objs w ! r)" by simp_all
  have f: "filter (\<lambda>(jid, r). jid \<notin> set ?ids) ?items =
           filter (\<lambda>(jid, r). \<not> is_expired now m (objs w ! r)) ?items"
    using e(3) by (intro filter_cong) auto
  have s: "{p. rm p = None \<and>
             (\<exists>(jid, r)\<in>set ?items. jid \<in> set ?ids \<and> video_path (objs w ! r) = Some p)} =
           {p. rm p = None \<and>
             (\<exists>(jid, r)\<in>set ?items. is_expired now m (objs w ! r) \<and>
                 video_path (objs w ! r) = Some p)}"
    using e(3) by (intro Collect_cong conj_cong bex_cong refl) auto
  from remove_expired_result[OF d e(1) e(2) p4, of rm fs] f s show ?thesis
    by (simp add: cleanup_old_jobs_def)
qed

section \<open>All candidates fail; the job under an id\<close>

lemma try_models_all_fail:
  assumes "\<forall>m\<in>set ms. \<exists>e. snd (attempt b m) = Inl e \<and> stdout b (failed_text m e) = None"
  shows "snd (try_models b ms le) =
     Inr (if ms = [] then le else Some (projl (snd (attempt b (last ms)))), None)"
  using assms
proof (induction ms arbitrary: le)
  case Nil
  show ?case by simp
next
  case (Cons m ms)
  from Cons.prems obtain e where e: "snd (attempt b m) = Inl e"
    "stdout b (failed_text m e) = None" by auto
  obtain evs where a: "attempt b m = (evs, Inl e)" using e(1) by (cases "attempt b m") auto
  from Cons.prems have
    "\<forall>m\<in>set ms. \<exists>e. snd (attempt b m) = Inl e \<and> stdout b (failed_text m e) = None" by simp
  from Cons.IH[OF this, of "Some e"] a e(2) show ?case
    by (cases "try_models b ms (Some e)") auto
qed

lemma get_job_ok:
  assumes "reachable w" "get_job w jid = Some job"
  shows "job_ok (temp_dir w) job \<and> job_id job = jid"
proof -
  from reachable_ok[OF assms(1)] have
    o: "\<forall>r<length (objs w). job_ok (temp_dir w) (objs w ! r)"
    and s: "\<forall>(jid, r)\<in>set (jobs (service w)). r < length (objs w) \<and> job_id (objs w ! r) = jid"
    by (simp_all add: world_ok_def)
  from assms(2) obtain r where r: "map_of (jobs (service w)) jid = Some r" "job = objs w ! r"
    by (auto simp: get_job_def)
  from r(1) have "(jid, r) \<in> set (jobs (service w))" by (rule map_of_SomeD)
  with s o r(2) show ?thesis by auto
qed

section \<open>The claims\<close>

text \<open>
  C1.  A background job can end with the job still \<^verbatim>\<open>generating\<close> and without a
  locator.  Standard output is ASCII; the first candidate starts an operation that is
  done at once; the download of its video raises with a message that has an accent in
  it.  \<^verbatim>\<open>_run_veo_sync\<close> raises that exception; the handler of \<^verbatim>\<open>_run_veo_job\<close>
  begins by printing it, that print raises \<^verbatim>\<open>UnicodeEncodeError\<close>, and the task ends
  before the handler has assigned anything.  The world so reached is one of a run; its
  task has no effect left to make, and the job found under the id is as it was created.
\<close>

theorem background_job_left_generating:
  "files_download refused_backend 7 = Some refused_message \<and>
   stdout refused_backend (error_text ''job-1'' refused_message) = Some unicode_error \<and>
   run_veo_job refused_backend demo_job =
     ([Generate_videos ''veo-3.1-generate-preview'', Files_download 7], demo_job) \<and>
   reachable world_refused \<and>
   tasks world_refused = [] \<and> running world_refused = [(0, [])] \<and>
   get_job world_refused ''job-1'' = Some demo_job \<and>
   status demo_job = ''generating'' \<and> video_url demo_job = None"
proof -
  have "files_download refused_backend 7 = Some refused_message"
    by (simp add: refused_backend_def)
  moreover have "stdout refused_backend (error_text ''job-1'' refused_message) =
      Some unicode_error"
    by (simp add: refused_backend_def ascii_stdout_def error_text_def refused_message_def)
  moreover have "get_job world_refused ''job-1'' = Some demo_job"
    by (simp add: get_job_def world_refused_eq)
  moreover have "status demo_job = ''generating''" "video_url demo_job = None"
    by (simp_all add: demo_job_def new_VeoJob_def)
  ultimately show ?thesis using run_refused reachable_refused world_refused_eq by simp
qed




text \<open>
  C3.  The fallback loop can stop at a candidate that raised and leave the later ones
  unattempted.  Standard output is ASCII; the candidates \<open>A\<close> and \<open>B\<close> raise with a
  message that has an accent in it and \<open>C\<close> returns a handle.  The handler of the loop
  begins by printing the message; for \<open>A\<close> that print raises \<^verbatim>\<open>UnicodeEncodeError\<close>,
  which leaves the loop: \<open>A\<close> is the only candidate called, no handle is returned, and
  what is raised is neither the error of \<open>A\<close> nor that of the last candidate.
\<close>

theorem resolver_stops_on_failed_print:
  "generate_videos accent_backend ''A'' = Inl accent_message \<and>
   generate_videos accent_backend ''B'' = Inl accent_message \<and>
   generate_videos accent_backend ''C'' = Inr finished \<and>
   stdout accent_backend (failed_text ''A'' accent_message) = Some unicode_error \<and>
   try_models accent_backend [''A'', ''B'', ''C''] None =
     ([Generate_videos ''A''], Inl unicode_error) \<and>
   unicode_error \<noteq> accent_message"
proof -
  have "stdout accent_backend (failed_text ''A'' accent_message) = Some unicode_error"
    by (simp add: accent_backend_def ascii_stdout_def failed_text_def accent_message_def)
  moreover have "unicode_error \<noteq> accent_message"
    by (simp add: unicode_error_def accent_message_def)
  ultimately show ?thesis using try_accent by (simp add: accent_backend_def)
qed

text \<open>
  C4.  When \<^verbatim>\<open>_get_client\<close> returns no client, \<^verbatim>\<open>generate_video\<close> returns the job
  id with the substitute locator, the job stored under that id has status
  \<^verbatim>\<open>ready\<close> and the substitute locator when the call returns, and no background task
  was created.  The call has no failing outcome.
\<close>

theorem offline_submit_is_ready:
  assumes "fst (get_client env (service w)) = None"
  shows "fst (generate_video env uuid now a w) = (uuid, Some MOCK_VIDEO_URL) \<and>
         get_job (snd (generate_video env uuid now a w)) uuid =
           Some ((new_VeoJob uuid (Some a) now)
                   \<lparr>status := ''ready'', video_url := Some MOCK_VIDEO_URL\<rparr>) \<and>
         tasks (snd (generate_video env uuid now a w)) = tasks w"
  using generate_video_cases[of env w uuid now a] assms
  by (auto simp: get_job_def update_conv')

theorem offline_submit_is_ready_witness:
  "fst (get_client env_no_key (service init_world)) = None \<and>
   fst (generate_video env_no_key ''job-1'' 0 MOCK_ANALYTICS init_world) =
     (''job-1'', Some MOCK_VIDEO_URL) \<and>
   get_job (snd (generate_video env_no_key ''job-1'' 0 MOCK_ANALYTICS init_world)) ''job-1'' =
     Some (demo_job\<lparr>status := ''ready'', video_url := Some MOCK_VIDEO_URL\<rparr>) \<and>
   tasks (snd (generate_video env_no_key ''job-1'' 0 MOCK_ANALYTICS init_world)) = []"
proof -
  have h: "fst (get_client env_no_key (service init_world)) = None"
    by (simp add: get_client_def env_no_key_def init_world_def)
  have t: "tasks init_world = []" by (simp add: init_world_def)
  from offline_submit_is_ready[OF h, of "''job-1''" 0 MOCK_ANALYTICS] h t
  show ?thesis by (simp add: demo_job_def)
qed

text \<open>
  C5.  Every candidate is refused and the first two for want of billing, but the last
  one with another message: the test for the billing fallback reads the last captured
  error only, so the job ends with status \<^verbatim>\<open>error\<close>, the message of the last
  candidate, and no note.  Every print of this run is written.
\<close>

theorem billing_on_earlier_candidate_is_error:
  "list_all (\<lambda>m. isl (generate_videos early_billing_backend m)) veo_models \<and>
   generate_videos early_billing_backend ''veo-3.1-generate-preview'' =
     Inl ''400 FAILED_PRECONDITION: Veo needs a project with Billing Enabled'' \<and>
   stdout early_billing_backend = (\<lambda>text. None) \<and>
   status (snd (run_veo_job early_billing_backend demo_job)) = ''error'' \<and>
   error (snd (run_veo_job early_billing_backend demo_job)) =
     Some (''No Veo model available or all failed. Last error: '' @
           ''404 NOT_FOUND: model veo-2.0-generate-001'') \<and>
   job_notes (snd (run_veo_job early_billing_backend demo_job)) = None"
proof -
  have "list_all (\<lambda>m. isl (generate_videos early_billing_backend m)) veo_models"
    by (simp add: early_billing_backend_def veo_models_def)
  moreover have "stdout early_billing_backend = (\<lambda>text. None)"
    by (simp add: early_billing_backend_def any_stdout_def fun_eq_iff)
  moreover have "generate_videos early_billing_backend ''veo-3.1-generate-preview'' =
     Inl ''400 FAILED_PRECONDITION: Veo needs a project with Billing Enabled''"
    by (simp add: early_billing_backend_def)
  ultimately show ?thesis
    by (simp add: run_early_billing demo_job_def new_VeoJob_def)
qed

text \<open>
  C5, amended.  When the attempt on every candidate raises, the warning printed for
  each of them is written, the exception of the last attempt, lower-cased, contains
  \<^verbatim>\<open>billing enabled\<close>, and the warning of the fallback is written, the background job
  leaves the job with status \<^verbatim>\<open>ready\<close>, the substitute locator and the explanatory
  note; the status is not \<^verbatim>\<open>error\<close>.
\<close>

theorem billing_failure_is_ready:
  assumes "prelude b = None"
    and "\<forall>m\<in>set veo_models. \<exists>e. snd (attempt b m) = Inl e \<and> stdout b (failed_text m e) = None"
    and "snd (attempt b (last veo_models)) = Inl exc"
    and "str_in ''billing enabled'' (lower exc)"
    and "stdout b billing_text = None"
  shows "snd (run_veo_job b job) =
           job\<lparr>video_url := Some MOCK_VIDEO_URL, status := ''ready'',
               job_notes := Some billing_note\<rparr> \<and>
         status (snd (run_veo_job b job)) = ''ready'' \<and>
         status (snd (run_veo_job b job)) \<noteq> ''error''"
proof -
  have "veo_models \<noteq> []" by (simp add: veo_models_def)
  with try_models_all_fail[OF assms(2), of None] assms(3)
  have "snd (try_models b veo_models None) = Inr (Some exc, None)" by simp
  then obtain calls where "try_models b veo_models None = (calls, Inr (Some exc, None))"
    by (cases "try_models b veo_models None") auto
  with assms(1,4,5) show ?thesis
    by (simp add: run_veo_job_def run_veo_sync_def or_empty_def)
qed

theorem billing_failure_is_ready_witness:
  "prelude billing_backend = None \<and>
   list_all (\<lambda>m. snd (attempt billing_backend m) =
        Inl ''400 FAILED_PRECONDITION: Veo needs a project with Billing Enabled'' \<and>
      stdout billing_backend (failed_text m
        ''400 FAILED_PRECONDITION: Veo needs a project with Billing Enabled'') = None)
     veo_models \<and>
   str_in ''billing enabled''
     (lower ''400 FAILED_PRECONDITION: Veo needs a project with Billing Enabled'') \<and>
   stdout billing_backend billing_text = None \<and>
   status (snd (run_veo_job billing_backend demo_job)) = ''ready'' \<and>
   video_url (snd (run_veo_job billing_backend demo_job)) = Some MOCK_VIDEO_URL \<and>
   job_notes (snd (run_veo_job billing_backend demo_job)) = Some billing_note"
proof -
  let ?msg = "''400 FAILED_PRECONDITION: Veo needs a project with Billing Enabled''"
  have h1: "prelude billing_backend = None" by (simp add: billing_backend_def)
  have a: "snd (attempt billing_backend m) = Inl ?msg" for m
    by (simp add: attempt_def billing_backend_def any_stdout_def)
  have p: "stdout billing_backend s = None" for s
    by (simp add: billing_backend_def any_stdout_def)
  have h2: "\<forall>m\<in>set veo_models. \<exists>e. snd (attempt billing_backend m) = Inl e \<and>
      stdout billing_backend (failed_text m e) = None"
    using a p by simp
  have h4: "str_in ''billing enabled'' (lower ?msg)"
    by (simp add: lower_def lower_char_def)
  from billing_failure_is_ready[OF h1 h2 a h4 p, of demo_job] h1 a p h4
  show ?thesis by (simp add: list_all_iff)
qed

text \<open>
  C6.  The poll loop can end before the first refresh of an operation that is never
  done.  Standard output is ASCII; the first candidate starts an operation that is not
  done, and every refresh would return one that is not done.  The loop prints
  \<^verbatim>\<open>[INFO] Veo: waiting 10s\<close> followed by an ellipsis, U+2026, before it
  sleeps; that print raises \<^verbatim>\<open>UnicodeEncodeError\<close>, so the operation is never
  refreshed and there is no sleep, and the job ends with status \<^verbatim>\<open>error\<close> and the
  substitute locator, but with the message of that exception and not
  \<^verbatim>\<open>Veo operation timed out\<close>.
\<close>

theorem poll_stops_on_failed_print:
  "generate_videos stuck_backend ''veo-3.1-generate-preview'' = Inr not_started \<and>
   \<not> op_done not_started \<and>
   (\<forall>k h. operations_get stuck_backend k h = Inr not_started) \<and>
   stdout stuck_backend waiting_text = Some unicode_error \<and>
   run_veo_job stuck_backend demo_job =
     ([Generate_videos ''veo-3.1-generate-preview'', Handler unicode_error],
      demo_job\<lparr>status := ''error'', error := Some unicode_error,
          video_url := Some MOCK_VIDEO_URL\<rparr>) \<and>
   count_list (fst (run_veo_job stuck_backend demo_job)) Operations_get = 0 \<and>
   count_list (fst (run_veo_job stuck_backend demo_job)) (Sleep 10) = 0 \<and>
   error (snd (run_veo_job stuck_backend demo_job)) \<noteq> Some ''Veo operation timed out''"
proof -
  have "stdout stuck_backend waiting_text = Some unicode_error"
    by (simp add: stuck_backend_def ascii_stdout_def waiting_text_def)
  moreover have "unicode_error \<noteq> ''Veo operation timed out''"
    by (simp add: unicode_error_def)
  ultimately show ?thesis
    by (simp add: run_stuck) (simp add: stuck_backend_def not_started_def)
qed

text \<open>
  C7.  A job record can go from \<^verbatim>\<open>ready\<close> to \<^verbatim>\<open>error\<close>.  Standard output is ASCII
  and \<^verbatim>\<open>TEMP\<close> is a directory with an umlaut in its name; the first candidate starts
  an operation that is done at once and the video is delivered.  \<^verbatim>\<open>_run_veo_sync\<close>
  assigns the path, the locator and the status \<^verbatim>\<open>ready\<close> and then prints the path;
  that print raises \<^verbatim>\<open>UnicodeEncodeError\<close> inside the \<^verbatim>\<open>try\<close> of \<^verbatim>\<open>_run_veo_job\<close>, whose
  handler assigns \<^verbatim>\<open>error\<close>.  The world in which the record is \<^verbatim>\<open>ready\<close> is one of a
  run, the next operation of the service leaves the record with status \<^verbatim>\<open>error\<close>, and
  the status was assigned twice.
\<close>

theorem ready_job_becomes_error:
  "reachable world_umlaut_ready \<and>
   status (objs world_umlaut_ready ! 0) = ''ready'' \<and>
   terminal (status (objs world_umlaut_ready ! 0)) \<and>
   step world_umlaut_ready world_umlaut_error \<and>
   status (objs world_umlaut_error ! 0) = ''error'' \<and>
   status_writes 0 (history world_umlaut_error) = [''ready'', ''error'']"
proof -
  have "step world_umlaut_ready world_umlaut_error"
    unfolding world_umlaut_error_def by (rule step.advance)
  moreover have "status (objs world_umlaut_ready ! 0) = ''ready''"
    by (simp add: world_umlaut_ready_eq)
  moreover have "status (objs world_umlaut_error ! 0) = ''error''"
    by (simp add: world_umlaut_error_eq)
  moreover have "status_writes 0 (history world_umlaut_error) = [''ready'', ''error'']"
    by (simp add: world_umlaut_error_eq status_writes_def status_events_def)
  ultimately show ?thesis using reachable_umlaut_ready by simp
qed

text \<open>
  C8.  The janitor can remove a record and leave its artifact.  Two jobs have their
  videos on disk, the first is older than the limit, and the file of the first cannot be
  removed: \<^verbatim>\<open>os.remove\<close> raises \<^verbatim>\<open>PermissionError\<close>, an \<^verbatim>\<open>OSError\<close>, which the
  janitor swallows.  The record of the first job is gone after the sweep and both files
  are still there.
\<close>

theorem sweep_leaves_locked_artifact:
  "\<exists>w'. cleanup_old_jobs locked 200000 172800 world_two two_files = Inr (w', two_files) \<and>
        get_job w' ''job-1'' = None \<and>
        get_job w' ''job-2'' = get_job world_two ''job-2'' \<and>
        video_path (objs world_two ! 0) = Some (out_path None ''job-1'') \<and>
        out_path None ''job-1'' \<in> two_files \<and>
        locked (out_path None ''job-1'') = Some ''PermissionError''"
proof -
  have s: "store_ok None (objs world_two) (jobs (service world_two))"
    by (simp add: store_ok_def world_two_def demo_job_def new_VeoJob_def)
  have ne: "out_path None ''job-1'' \<noteq> out_path None ''job-2''" by (simp add: out_path_def)
  have e: "is_expired 200000 172800 (objs world_two ! 0)"
    "\<not> is_expired 200000 172800 (objs world_two ! Suc 0)"
    by (simp_all add: is_expired_def world_two_def demo_job_def new_VeoJob_def)
  have j: "jobs (service world_two) = [(''job-1'', 0), (''job-2'', 1)]"
    by (simp add: world_two_def)
  have v: "video_path (objs world_two ! 0) = Some (out_path None ''job-1'')"
    by (simp add: world_two_def)
  have "two_files - {p. locked p = None \<and> (\<exists>(jid, r)\<in>set (jobs (service world_two)).
           is_expired 200000 172800 (objs world_two ! r) \<and>
           video_path (objs world_two ! r) = Some p)} = two_files"
    using e v by (auto simp: j locked_def)
  with cleanup_result[OF s, of locked 200000 172800 two_files] e v
  show ?thesis by (simp add: j get_job_def two_files_def locked_def)
qed

text \<open>
  C8, amended.  On a store whose keys are the ids of the jobs and whose recorded paths
  are the ones derived from those ids (every world of a run has such a store),
  \<^verbatim>\<open>cleanup_old_jobs\<close> returns without an exception, keeps exactly the entries with
  \<^verbatim>\<open>now - created_at > max_age_seconds\<close> false, in their order, changes no job record,
  and takes from the file system exactly those recorded paths of the removed jobs that
  \<^verbatim>\<open>os.remove\<close> removes: a path that does not exist is skipped, and a path whose
  removal raises \<^verbatim>\<open>OSError\<close> stays although its record is gone.  The recorded path of
  a job that stays exists afterwards if and only if it did before.
\<close>

theorem sweep_removes_exactly_expired:
  assumes "store_ok t (objs w) (jobs (service w))"
  shows "\<exists>w' fs'. cleanup_old_jobs rm now m w fs = Inr (w', fs') \<and>
     jobs (service w') =
       filter (\<lambda>(jid, r). \<not> now - created_at (objs w ! r) > of_int m) (jobs (service w)) \<and>
     objs w' = objs w \<and>
     (\<forall>jid. get_job w' jid =
        (case get_job w jid of
           None \<Rightarrow> None
         | Some job \<Rightarrow> if now - created_at job > of_int m then None else Some job)) \<and>
     fs' = fs - {p. rm p = None \<and>
                    (\<exists>(jid, r)\<in>set (jobs (service w)).
                      now - created_at (objs w ! r) > of_int m \<and>
                      video_path (objs w ! r) = Some p)} \<and>
     (\<forall>(jid, r)\<in>set (jobs (service w)). \<not> now - created_at (objs w ! r) > of_int m \<longrightarrow>
        (\<forall>p. video_path (objs w ! r) = Some p \<longrightarrow> (p \<in> fs' \<longleftrightarrow> p \<in> fs)))"
proof -
  let ?items = "jobs (service w)"
  let ?P = "\<lambda>r. \<not> now - created_at (objs w ! r) > of_int m"
  let ?w = "w\<lparr>service := (service w)\<lparr>jobs := filter (\<lambda>(jid, r). ?P r) ?items\<rparr>\<rparr>"
  let ?fs = "fs - {p. rm p = None \<and>
                    (\<exists>(jid, r)\<in>set ?items.
                      now - created_at (objs w ! r) > of_int m \<and>
                      video_path (objs w ! r) = Some p)}"
  from assms have d: "distinct (map fst ?items)" by (simp add: store_ok_def)
  have c: "cleanup_old_jobs rm now m w fs = Inr (?w, ?fs)"
    using cleanup_result[OF assms, of rm now m fs] by (simp add: is_expired_def)
  have g: "get_job ?w jid =
        (case get_job w jid of
           None \<Rightarrow> None
         | Some job \<Rightarrow> if now - created_at job > of_int m then None else Some job)" for jid
    using map_of_filter_val[OF d, of ?P jid]
    by (auto simp: get_job_def split: option.splits)
  have k: "(p \<in> ?fs \<longleftrightarrow> p \<in> fs)"
    if "(jid, r) \<in> set ?items" "?P r" "video_path (objs w ! r) = Some p" for jid r p
  proof -
    have "\<not> (\<exists>(jid', r')\<in>set ?items. now - created_at (objs w ! r') > of_int m \<and>
                      video_path (objs w ! r') = Some p)"
    proof
      assume "\<exists>(jid', r')\<in>set ?items. now - created_at (objs w ! r') > of_int m \<and>
                      video_path (objs w ! r') = Some p"
      then obtain jid' r' where e: "(jid', r') \<in> set ?items"
        "now - created_at (objs w ! r') > of_int m" "video_path (objs w ! r') = Some p"
        by auto
      from assms that(1,3) have "p = out_path t jid" by (auto simp: store_ok_def)
      moreover from assms e(1,3) have "p = out_path t jid'" by (auto simp: store_ok_def)
      ultimately have "jid = jid'" by (auto dest: out_path_inj)
      with that(1) e(1) d have "r = r'" using map_of_unique by fast
      with that(2) e(2) show False by simp
    qed
    then show ?thesis by simp
  qed
  have "jobs (service ?w) = filter (\<lambda>(jid, r). ?P r) ?items" "objs ?w = objs w" by simp_all
  with c g k show ?thesis by (intro exI[of _ ?w] exI[of _ ?fs]) blast
qed

theorem sweep_removes_exactly_expired_witness:
  "store_ok None (objs world_two) (jobs (service world_two)) \<and>
   (\<exists>w'. cleanup_old_jobs (\<lambda>p. None) 200000 172800 world_two two_files =
           Inr (w', {out_path None ''job-2''}) \<and>
         jobs (service w') = [(''job-2'', 1)] \<and> objs w' = objs world_two \<and>
         get_job w' ''job-1'' = None \<and> get_job w' ''job-2'' = get_job world_two ''job-2'') \<and>
   (\<exists>w'. cleanup_old_jobs locked 200000 172800 world_two two_files = Inr (w', two_files) \<and>
         jobs (service w') = [(''job-2'', 1)])"
proof -
  have h: "store_ok None (objs world_two) (jobs (service world_two))"
    by (simp add: store_ok_def world_two_def demo_job_def new_VeoJob_def)
  have j: "jobs (service world_two) = [(''job-1'', 0), (''job-2'', 1)]"
    by (simp add: world_two_def)
  have o: "created_at (objs world_two ! 0) = 0" "created_at (objs world_two ! 1) = 100000"
    "video_path (objs world_two ! 0) = Some (out_path None ''job-1'')"
    "video_path (objs world_two ! 1) = Some (out_path None ''job-2'')"
    by (simp_all add: world_two_def demo_job_def new_VeoJob_def)
  have o': "created_at (objs world_two ! Suc 0) = 100000"
    "video_path (objs world_two ! Suc 0) = Some (out_path None ''job-2'')"
    using o by simp_all
  have ne: "out_path None ''job-1'' \<noteq> out_path None ''job-2''" by (simp add: out_path_def)
  have g: "get_job world_two ''job-1'' = Some (objs world_two ! 0)"
    "get_job world_two ''job-2'' = Some (objs world_two ! 1)"
    by (simp_all add: get_job_def j)
  from sweep_removes_exactly_expired[OF h, of "\<lambda>p. None" 200000 172800 two_files]
  obtain w' fs' where r:
    "cleanup_old_jobs (\<lambda>p. None) 200000 172800 world_two two_files = Inr (w', fs')"
    "jobs (service w') =
       filter (\<lambda>(jid, r). \<not> 200000 - created_at (objs world_two ! r) > of_int 172800)
         (jobs (service world_two))"
    "objs w' = objs world_two"
    "\<forall>jid. get_job w' jid =
        (case get_job world_two jid of
           None \<Rightarrow> None
         | Some job \<Rightarrow> if 200000 - created_at job > of_int 172800 then None else Some job)"
    "fs' = two_files -
        {p. (\<lambda>p. None) p = None \<and> (\<exists>(jid, r)\<in>set (jobs (service world_two)).
              200000 - created_at (objs world_two ! r) > of_int 172800 \<and>
              video_path (objs world_two ! r) = Some p)}"
    by blast
  have 1: "jobs (service w') = [(''job-2'', 1)]" using r(2) by (simp add: j o o')
  have 2: "fs' = {out_path None ''job-2''}" using r(5) ne by (auto simp: j o o' two_files_def)
  have 3: "get_job w' ''job-1'' = None" "get_job w' ''job-2'' = get_job world_two ''job-2''"
    using r(4) by (simp_all add: g o o')
  from sweep_removes_exactly_expired[OF h, of locked 200000 172800 two_files]
  obtain v' gs' where q:
    "cleanup_old_jobs locked 200000 172800 world_two two_files = Inr (v', gs')"
    "jobs (service v') =
       filter (\<lambda>(jid, r). \<not> 200000 - created_at (objs world_two ! r) > of_int 172800)
         (jobs (service world_two))"
    "gs' = two_files -
        {p. locked p = None \<and> (\<exists>(jid, r)\<in>set (jobs (service world_two)).
              200000 - created_at (objs world_two ! r) > of_int 172800 \<and>
              video_path (objs world_two ! r) = Some p)}"
    by blast
  have 4: "jobs (service v') = [(''job-2'', 1)]" using q(2) by (simp add: j o o')
  have 5: "gs' = two_files" using q(3) ne by (auto simp: j o o' two_files_def locked_def)
  from r(1,3) 1 2 3 q(1) 4 5 h show ?thesis by blast
qed

text \<open>
  C9.  \<^verbatim>\<open>get_video_path\<close> can return a path for a job that is not \<^verbatim>\<open>ready\<close>.  The
  background job saves the video and assigns \<^verbatim>\<open>job.video_path\<close> before it assigns
  the locator and the status, in a worker thread; in the world of a run between these
  assignments the job is \<^verbatim>\<open>generating\<close>, the file exists, and the path is returned.
\<close>

theorem path_served_before_ready:
  "reachable world_path_set \<and>
   (\<exists>job. get_job world_path_set ''job-1'' = Some job \<and> status job = ''generating'') \<and>
   get_video_path world_path_set {out_path None ''job-1''} ''job-1'' =
     Some (out_path None ''job-1'')"
proof -
  have "get_job world_path_set ''job-1'' =
      Some (demo_job\<lparr>video_path := Some (out_path None ''job-1'')\<rparr>)"
    by (simp add: get_job_def world_path_set_eq)
  moreover have "status (demo_job\<lparr>video_path := Some (out_path None ''job-1'')\<rparr>) =
      ''generating''"
    by (simp add: demo_job_def new_VeoJob_def)
  moreover have "get_video_path world_path_set {out_path None ''job-1''} ''job-1'' =
     Some (out_path None ''job-1'')"
    by (simp add: get_video_path_def get_job_def world_path_set_eq out_path_not_empty)
  ultimately show ?thesis using reachable_path_set by simp
qed

text \<open>
  C9, amended.  In every world of a run, \<^verbatim>\<open>get_video_path\<close> returns a path exactly
  when a job is stored under the id, that path is recorded on it and the path exists,
  whatever the status of the job; the path is the one derived from the id.  It returns
  nothing for an unknown id, for a job with no recorded path, and for a path that does
  not exist.
\<close>

theorem video_path_when_recorded:
  assumes "reachable w"
  shows "(get_video_path w fs jid = Some p \<longleftrightarrow>
           (\<exists>job. get_job w jid = Some job \<and> video_path job = Some p \<and> p \<in> fs)) \<and>
         (get_video_path w fs jid = Some p \<longrightarrow> p = out_path (temp_dir w) jid) \<and>
         (get_job w jid = None \<longrightarrow> get_video_path w fs jid = None) \<and>
         (\<forall>job. get_job w jid = Some job \<and>
            (video_path job = None \<or> (\<exists>q. video_path job = Some q \<and> q \<notin> fs)) \<longrightarrow>
            get_video_path w fs jid = None)"
proof -
  have rd: "q = out_path (temp_dir w) jid \<and> q \<noteq> []"
    if "get_job w jid = Some job" "video_path job = Some q" for job q
    using get_job_ok[OF assms that(1)] that(2) out_path_not_empty[of "temp_dir w" jid]
    by (auto simp: job_ok_def)
  have 1: "get_video_path w fs jid = Some p \<longleftrightarrow>
           (\<exists>job. get_job w jid = Some job \<and> video_path job = Some p \<and> p \<in> fs)"
  proof (cases "get_job w jid")
    case None
    then show ?thesis by (simp add: get_video_path_def)
  next
    case (Some job)
    show ?thesis
    proof (cases "video_path job")
      case None
      with Some show ?thesis by (simp add: get_video_path_def)
    next
      case (Some q)
      with rd[OF \<open>get_job w jid = Some job\<close> Some] \<open>get_job w jid = Some job\<close>
      show ?thesis by (auto simp: get_video_path_def)
    qed
  qed
  have 2: "get_video_path w fs jid = Some p \<longrightarrow> p = out_path (temp_dir w) jid"
    using 1 rd by blast
  have 3: "get_job w jid = None \<longrightarrow> get_video_path w fs jid = None"
    by (simp add: get_video_path_def)
  have 4: "\<forall>job. get_job w jid = Some job \<and>
            (video_path job = None \<or> (\<exists>q. video_path job = Some q \<and> q \<notin> fs)) \<longrightarrow>
            get_video_path w fs jid = None"
    by (auto simp: get_video_path_def)
  from 1 2 3 4 show ?thesis by blast
qed

theorem video_path_when_recorded_witness:
  "reachable world_done \<and> reachable world_failed \<and>
   get_video_path world_done {out_path None ''job-1''} ''job-1'' =
     Some (out_path None ''job-1'') \<and>
   (\<exists>job. get_job world_done ''job-1'' = Some job \<and>
          video_path job = Some (out_path None ''job-1'') \<and>
          out_path None ''job-1'' \<in> {out_path None ''job-1''}) \<and>
   out_path None ''job-1'' = out_path (temp_dir world_done) ''job-1'' \<and>
   get_job world_done ''job-2'' = None \<and>
   get_video_path world_done {out_path None ''job-1''} ''job-2'' = None \<and>
   get_video_path world_done {} ''job-1'' = None \<and>
   get_video_path world_failed {out_path None ''job-1''} ''job-1'' = None"
proof -
  have g: "get_video_path world_done {out_path None ''job-1''} ''job-1'' =
      Some (out_path None ''job-1'')"
    by (simp add: get_video_path_def get_job_def world_done_eq out_path_not_empty)
  have n: "get_job world_done ''job-2'' = None"
    by (simp add: get_job_def world_done_eq)
  have j: "get_job world_done ''job-1'' = Some (objs world_done ! 0)"
    by (simp add: get_job_def world_done_eq)
  have jf: "get_job world_failed ''job-1'' = Some (objs world_failed ! 0)"
    "video_path (objs world_failed ! 0) = None"
    by (simp_all add: get_job_def world_failed_eq demo_job_def new_VeoJob_def)
  have q: "video_path (objs world_done ! 0) = Some (out_path None ''job-1'')"
    "out_path None ''job-1'' \<notin> {}"
    by (simp_all add: world_done_eq)
  note a = video_path_when_recorded[OF reachable_done, of "{out_path None ''job-1''}" "''job-1''"
      "out_path None ''job-1''"]
  note b = video_path_when_recorded[OF reachable_done, of "{out_path None ''job-1''}" "''job-2''"]
  note c = video_path_when_recorded[OF reachable_done, of "{}" "''job-1''"]
  note d = video_path_when_recorded[OF reachable_failed, of "{out_path None ''job-1''}"
      "''job-1''"]
  from a g have "\<exists>job. get_job world_done ''job-1'' = Some job \<and>
          video_path job = Some (out_path None ''job-1'') \<and>
          out_path None ''job-1'' \<in> {out_path None ''job-1''}" by blast
  moreover from a g have "out_path None ''job-1'' = out_path (temp_dir world_done) ''job-1''"
    by blast
  moreover from b n have "get_video_path world_done {out_path None ''job-1''} ''job-2'' = None"
    by blast
  moreover from c j q have "get_video_path world_done {} ''job-1'' = None" by blast
  moreover from d jf have "get_video_path world_failed {out_path None ''job-1''} ''job-1'' = None"
    by blast
  ultimately show ?thesis using g n reachable_done reachable_failed by blast
qed

text \<open>
  C10.  The analysis stores the scores of the answer as \<^verbatim>\<open>int(...)\<close> makes them and
  does not bring them into the range 0 to 100: on an answer with the scores 150 and -5
  the result, which is not the mock, has exactly these.
\<close>

theorem analysis_scores_not_clamped:
  "risk_score (fst (analyze_image_sync env_key demo_builtins hot_vision MOCK_ANALYTICS
      (service init_world))) = 150 \<and>
   sustainability_score (fst (analyze_image_sync env_key demo_builtins hot_vision MOCK_ANALYTICS
      (service init_world))) = - 5 \<and>
   \<not> is_mock (fst (analyze_image_sync env_key demo_builtins hot_vision MOCK_ANALYTICS
      (service init_world)))"
proof -
  have s: "strip_fences hot_answer = hot_answer"
    by (simp add: strip_fences_def hot_answer_def)
  have "analysis demo_builtins hot_vision =
      Inr \<lparr>land_area_ha = 10, water_need_l_per_day = 3500, profit_usd_per_ha = 1000,
           risk_score = 150, risk_label = ''Moderate'', sustainability_score = - 5,
           soil_type = ''Unknown'', dominant_vegetation = ''Unknown'',
           recommended_crop = ''N/A'', veo_prompt = [], is_mock = False,
           analytics_notes = []\<rparr>"
    by (simp add: analysis_def hot_vision_def analysis_models_def demo_builtins_def s
        bind_exn_def analytics_of_data_def dict_get_def py_int_def py_float_def py_str_def)
  then show ?thesis
    by (simp add: analyze_image_sync_def get_client_def env_key_def init_world_def)
qed

end
